theory Spec2Isabelle
  imports Main
begin

section \<open>The deployment orchestrator\<close>

text \<open>
  The repository holds the script twice: \<^verbatim>\<open>src/orchestrator.py\<close> and, with the
  \<^verbatim>\<open>logging\<close> module and one more mode, \<^verbatim>\<open>src/orchestrator/orchestrator.py\<close>.
  Both are embedded. The definitions of the first file keep the source's names; those of
  the second carry the suffix \<open>_pkg\<close>.

  The script does nothing but talk to its surroundings, so the surroundings are explicit.
  A state is the outside world together with the list of the operations the script has
  performed on it, oldest first. What the world answers (does a path exist, what does a
  command return, which lines does a file hold, what time is it) and how an operation
  changes the world are fields of an \<open>os\<close> record that every function takes as its
  first argument; the theorems hold for every such record. The only exception the script
  can raise from a well-typed configuration document is \<^verbatim>\<open>KeyError\<close>; the calls into
  the operating system are taken to return.
\<close>

subsection \<open>Paths, operations, states\<close>

text \<open>
  A \<^verbatim>\<open>pathlib.Path\<close> is kept as the expression that built it: the directory of the
  script, \<^verbatim>\<open>p / name\<close> and \<^verbatim>\<open>p.parent\<close>. Whether two expressions name the same
  directory is for the world to say.
\<close>

datatype path = ScriptDir | Join path string | Parent path

datatype event =
    Mkdir path bool
  | Subprocess string "path option" bool
  | OpenAppend path
  | OpenRead path
  | Write path string
  | Stdout string
  | Flush
  | PrintHelp

text \<open>
  \<open>Mkdir p parents\<close> is \<^verbatim>\<open>p.mkdir(parents=parents, exist_ok=True)\<close>;
  \<open>Subprocess cmd cwd capture\<close> is \<^verbatim>\<open>subprocess.run(cmd, shell=True, cwd=cwd)\<close>,
  with \<^verbatim>\<open>capture_output=True, text=True\<close> when \<open>capture\<close> holds; \<open>Stdout\<close> is a line
  written to the standard output without its final newline.
\<close>

datatype exn = KeyError string | SystemExit int

record project_config =
  project_url :: "string option"
  project_branch :: "string option"
  project_dependencies :: "string list option"

record dep_config =
  dependency_url :: "string option"
  dependency_branch :: "string option"
  dependency_path :: "string option"
  dependency_requirements :: "bool option"

text \<open>
  A field is \<open>None\<close> when the key is absent from the record. The two top-level mappings
  are association lists in document order; an absent mapping is the empty list, which is
  what \<^verbatim>\<open>config.get('projects', {})\<close> makes of it.
\<close>

record config =
  projects :: "(string \<times> project_config) list"
  dependencies :: "(string \<times> dep_config) list"

record 'w os =
  path_exists :: "path \<Rightarrow> 'w \<Rightarrow> bool"
  path_str :: "path \<Rightarrow> string"
  returncode :: "string \<Rightarrow> path option \<Rightarrow> bool \<Rightarrow> 'w \<Rightarrow> int"
  file_lines :: "path \<Rightarrow> 'w \<Rightarrow> string list"
  safe_load :: "path \<Rightarrow> 'w \<Rightarrow> config"
  strftime_now :: "string \<Rightarrow> 'w \<Rightarrow> string"
  asctime :: "'w \<Rightarrow> string"
  apply_event :: "event \<Rightarrow> 'w \<Rightarrow> 'w"

record 'w state =
  world :: 'w
  trace :: "event list"

definition perform :: "'w os \<Rightarrow> event \<Rightarrow> 'w state \<Rightarrow> 'w state" where
  "perform os e s = \<lparr>world = apply_event os e (world s), trace = trace s @ [e]\<rparr>"

text \<open>The commands a trace holds, in the order they were run.\<close>

fun commands :: "event list \<Rightarrow> (string \<times> path option \<times> bool) list" where
  "commands [] = []"
| "commands (Subprocess cmd cwd capture # es) = (cmd, cwd, capture) # commands es"
| "commands (e # es) = commands es"

text \<open>The directories a trace creates together with their parents.\<close>

fun made_parents :: "event list \<Rightarrow> path list" where
  "made_parents [] = []"
| "made_parents (Mkdir p True # es) = p # made_parents es"
| "made_parents (e # es) = made_parents es"

text \<open>The directories a trace creates, with or without their parents.\<close>

fun made_dirs :: "event list \<Rightarrow> path list" where
  "made_dirs [] = []"
| "made_dirs (Mkdir p parents # es) = p # made_dirs es"
| "made_dirs (e # es) = made_dirs es"

subsection \<open>Strings\<close>

text \<open>
  A character is a code point below 256. \<open>isspace\<close> lists the code points below 256
  that \<^verbatim>\<open>str.isspace\<close> accepts, which are the ones \<^verbatim>\<open>str.strip()\<close> removes.
\<close>

definition isspace :: "char \<Rightarrow> bool" where
  "isspace c \<longleftrightarrow> c \<in> set [CHR 0x09, CHR 0x0A, CHR 0x0B, CHR 0x0C, CHR 0x0D,
     CHR 0x1C, CHR 0x1D, CHR 0x1E, CHR 0x1F, CHR 0x20, CHR 0x85, CHR 0xA0]"

definition strip :: "string \<Rightarrow> string" where
  "strip l = rev (dropWhile isspace (rev (dropWhile isspace l)))"

definition startswith :: "string \<Rightarrow> string \<Rightarrow> bool" where
  "startswith l p \<longleftrightarrow> take (length p) l = p"

definition digit :: "nat \<Rightarrow> char" where
  "digit d = char_of (of_char CHR ''0'' + d)"

fun str_nat :: "nat \<Rightarrow> string" where
  "str_nat n = (if n < 10 then [digit n] else str_nat (n div 10) @ [digit (n mod 10)])"

declare str_nat.simps [simp del]

subsection \<open>src/orchestrator.py\<close>

definition LOG_DIR :: path where
  "LOG_DIR = Join ScriptDir ''logs''"

definition CONFIG_FILE :: path where
  "CONFIG_FILE = Join ScriptDir ''orchestrator.yaml''"

definition REPOS_DIR :: path where
  "REPOS_DIR = Join ScriptDir ''repos''"

definition LIBS_DIR :: path where
  "LIBS_DIR = Join ScriptDir ''libs''"

definition colors :: "string \<Rightarrow> string" where
  "colors level =
     (if level = ''INFO'' then CHR 0x1B # ''[0;34m''
      else if level = ''OK'' then CHR 0x1B # ''[0;32m''
      else if level = ''WARN'' then CHR 0x1B # ''[1;33m''
      else if level = ''ERROR'' then CHR 0x1B # ''[0;31m''
      else [])"

definition log :: "'w os \<Rightarrow> string \<Rightarrow> string \<Rightarrow> 'w state \<Rightarrow> 'w state" where
  "log os level msg s =
     (let timestamp = strftime_now os ''%Y-%m-%d %H:%M:%S'' (world s);
          color = colors level;
          s1 = perform os (Stdout (''['' @ timestamp @ ''] '' @ color @ ''['' @ level @ '']''
                 @ CHR 0x1B # ''[0m '' @ msg)) s;
          s2 = perform os (Mkdir LOG_DIR False) s1;
          log_file = Join LOG_DIR
                 (''orchestrator_'' @ strftime_now os ''%Y%m%d'' (world s2) @ ''.log'');
          s3 = perform os (OpenAppend log_file) s2;
          s4 = perform os (Write log_file
                 (''['' @ timestamp @ ''] ['' @ level @ ''] '' @ msg @ [CHR 0x0A])) s3
      in perform os Flush s4)"

definition run_cmd :: "'w os \<Rightarrow> string \<Rightarrow> path option \<Rightarrow> bool \<Rightarrow> 'w state \<Rightarrow> bool \<times> 'w state" where
  "run_cmd os cmd cwd quiet s =
     (if quiet
      then (returncode os cmd cwd True (world s) = 0, perform os (Subprocess cmd cwd True) s)
      else (returncode os cmd cwd False (world s) = 0, perform os (Subprocess cmd cwd False) s))"

definition clone_or_update ::
  "'w os \<Rightarrow> string \<Rightarrow> string \<Rightarrow> string \<Rightarrow> path \<Rightarrow> 'w state \<Rightarrow> bool \<times> 'w state" where
  "clone_or_update os name url branch target_dir s =
     (if path_exists os target_dir (world s) then
        (let s1 = log os ''INFO'' (''Updating '' @ name @ '' from '' @ branch @ ''...'') s;
             (success, s2) = run_cmd os (''git pull origin '' @ branch) (Some target_dir) False s1
         in (success, if success then log os ''OK'' (name @ '' updated'') s2 else s2))
      else
        (let s1 = log os ''INFO'' (''Cloning '' @ name @ '' from '' @ url @ ''...'') s;
             (success, s2) = run_cmd os
               (''git clone -b '' @ branch @ '' '' @ url @ '' '' @ path_str os target_dir)
               None False s1
         in (success, if success then log os ''OK'' (name @ '' cloned'') s2 else s2)))"

definition install_dependency ::
  "'w os \<Rightarrow> string \<Rightarrow> dep_config \<Rightarrow> 'w state \<Rightarrow> (exn + bool) \<times> 'w state" where
  "install_dependency os dep_name dep_config s =
     (case dependency_url dep_config of
        None \<Rightarrow> (Inl (KeyError ''url''), s)
      | Some url \<Rightarrow>
     (let branch = (case dependency_branch dep_config of None \<Rightarrow> ''main'' | Some b \<Rightarrow> b) in
      case dependency_path dep_config of
        None \<Rightarrow> (Inl (KeyError ''path''), s)
      | Some path \<Rightarrow>
     (let has_req = (case dependency_requirements dep_config of None \<Rightarrow> False | Some r \<Rightarrow> r);
          dep_path = Join LIBS_DIR path;
          s1 = perform os (Mkdir (Parent dep_path) True) s;
          s2 = log os ''INFO'' (''Processing dependency: '' @ dep_name) s1;
          (synced, s3) = clone_or_update os dep_name url branch dep_path s2
      in if \<not> synced then (Inr False, s3)
         else
          (let s4 = (if has_req \<and> path_exists os (Join dep_path ''requirements.txt'') (world s3)
                     then snd (run_cmd os
                            (''pip install -r '' @ path_str os dep_path @ ''/requirements.txt'')
                            None True
                            (log os ''INFO'' (''Installing requirements for '' @ dep_name @ ''...'') s3))
                     else s3);
               s5 = log os ''INFO'' (''Installing '' @ dep_name @ '' in editable mode...'') s4;
               s6 = snd (run_cmd os (''pip install -e '' @ path_str os dep_path) None True s5)
           in (Inr True, log os ''OK'' (dep_name @ '' installed'') s6)))))"

text \<open>
  The loop of lines 105 to 108 over \<^verbatim>\<open>enumerate(deps, 1)\<close>; \<open>n\<close> is \<^verbatim>\<open>len(deps)\<close>.
  An exception of \<open>install_dependency\<close> ends the loop and is passed on.
\<close>

fun install_loop ::
  "'w os \<Rightarrow> (string \<times> dep_config) list \<Rightarrow> nat \<Rightarrow> (nat \<times> string) list \<Rightarrow> 'w state
     \<Rightarrow> (exn + unit) \<times> 'w state" where
  "install_loop os all_deps n [] s = (Inr (), s)"
| "install_loop os all_deps n ((i, dep) # rest) s =
     (case map_of all_deps dep of
        None \<Rightarrow> install_loop os all_deps n rest s
      | Some dep_config \<Rightarrow>
          (let s1 = perform os (Stdout (CHR 0x0A # ''['' @ str_nat i @ ''/'' @ str_nat n @ '']'')) s
           in case install_dependency os dep dep_config s1 of
                (Inl e, s2) \<Rightarrow> (Inl e, s2)
              | (Inr _, s2) \<Rightarrow> install_loop os all_deps n rest s2))"

text \<open>Lines 101 to 108, the block under \<^verbatim>\<open>if deps:\<close>.\<close>

definition install_listed ::
  "'w os \<Rightarrow> string list \<Rightarrow> config \<Rightarrow> 'w state \<Rightarrow> (exn + unit) \<times> 'w state" where
  "install_listed os deps config s =
     (if deps = [] then (Inr (), s)
      else
        (let s1 = perform os (Stdout []) s;
             s2 = log os ''INFO''
                    (''Step 2: Installing '' @ str_nat (length deps) @ '' dependencies'') s1;
             all_deps = dependencies config
         in install_loop os all_deps (length deps) (zip [1..<Suc (length deps)] deps) s2))"

text \<open>
  The loop of lines 115 to 119 over the lines of the manifest file. The lines are the
  ones the file holds when it is opened.
\<close>

fun manifest_loop :: "'w os \<Rightarrow> path \<Rightarrow> string list \<Rightarrow> 'w state \<Rightarrow> 'w state" where
  "manifest_loop os project_path [] s = s"
| "manifest_loop os project_path (raw # rest) s =
     (let line = strip raw
      in if line \<noteq> [] \<and> \<not> startswith line ''#''
         then manifest_loop os project_path rest
                (snd (run_cmd os line (Some project_path) False (log os ''INFO'' (''> '' @ line) s)))
         else manifest_loop os project_path rest s)"

text \<open>Lines 110 to 119.\<close>

definition run_manifest :: "'w os \<Rightarrow> path \<Rightarrow> 'w state \<Rightarrow> 'w state" where
  "run_manifest os project_path s =
     (let pkg_file = Join project_path ''repo_specific_packages.txt''
      in if path_exists os pkg_file (world s)
         then
           (let s1 = perform os (Stdout []) s;
                s2 = log os ''INFO'' ''Step 3: Running project-specific commands'' s1;
                s3 = perform os (OpenRead pkg_file) s2
            in manifest_loop os project_path (file_lines os pkg_file (world s3)) s3)
         else s)"

definition rule50 :: string where
  "rule50 = replicate 50 CHR ''=''"

text \<open>Lines 85 to 87 and lines 121 to 123.\<close>

definition announce :: "'w os \<Rightarrow> string \<Rightarrow> 'w state \<Rightarrow> 'w state" where
  "announce os project_name s =
     perform os (Stdout (rule50 @ [CHR 0x0A]))
       (log os ''INFO'' (''Starting deployment: '' @ project_name)
         (perform os (Stdout (CHR 0x0A # rule50)) s))"

definition conclude :: "'w os \<Rightarrow> string \<Rightarrow> 'w state \<Rightarrow> 'w state" where
  "conclude os project_name s =
     perform os (Stdout (rule50 @ [CHR 0x0A]))
       (log os ''OK'' (''Deployment completed: '' @ project_name)
         (perform os (Stdout (CHR 0x0A # rule50)) s))"

definition deploy_project ::
  "'w os \<Rightarrow> string \<Rightarrow> config \<Rightarrow> 'w state \<Rightarrow> (exn + bool) \<times> 'w state" where
  "deploy_project os project_name config s =
     (case map_of (projects config) project_name of
        None \<Rightarrow>
          (Inr False,
           log os ''ERROR'' (''Project '' @ CHR 0x27 # project_name @ CHR 0x27 # '' not found in config'') s)
      | Some project_config \<Rightarrow>
     (let s1 = announce os project_name s in
      case project_url project_config of
        None \<Rightarrow> (Inl (KeyError ''url''), s1)
      | Some url \<Rightarrow>
     (let branch = (case project_branch project_config of None \<Rightarrow> ''main'' | Some b \<Rightarrow> b);
          deps = (case project_dependencies project_config of None \<Rightarrow> [] | Some ds \<Rightarrow> ds);
          project_path = Join REPOS_DIR project_name;
          s2 = perform os (Mkdir REPOS_DIR False) s1;
          s3 = log os ''INFO'' ''Step 1: Cloning/updating project repository'' s2;
          (synced, s4) = clone_or_update os project_name url branch project_path s3
      in if \<not> synced then (Inr False, s4)
         else
          (case install_listed os deps config s4 of
             (Inl e, s5) \<Rightarrow> (Inl e, s5)
           | (Inr _, s5) \<Rightarrow>
               (Inr True, conclude os project_name (run_manifest os project_path s5))))))"

text \<open>The state in which \<open>deploy_project\<close> calls \<open>clone_or_update\<close> (line 98).\<close>

definition before_sync :: "'w os \<Rightarrow> string \<Rightarrow> 'w state \<Rightarrow> 'w state" where
  "before_sync os project_name s =
     log os ''INFO'' ''Step 1: Cloning/updating project repository''
       (perform os (Mkdir REPOS_DIR False) (announce os project_name s))"

fun list_projects_loop :: "'w os \<Rightarrow> (string \<times> project_config) list \<Rightarrow> 'w state \<Rightarrow> 'w state" where
  "list_projects_loop os [] s = s"
| "list_projects_loop os ((name, proj) # rest) s =
     (let branch = (case project_branch proj of None \<Rightarrow> ''main'' | Some b \<Rightarrow> b);
          status = (if path_exists os (Join REPOS_DIR name) (world s)
                    then ''Deployed'' else ''Not Deployed'')
      in list_projects_loop os rest
           (perform os (Stdout (''  - '' @ name @ '' (branch: '' @ branch @ '') ['' @ status @ '']'')) s))"

definition list_projects :: "'w os \<Rightarrow> config \<Rightarrow> 'w state \<Rightarrow> 'w state" where
  "list_projects os config s =
     list_projects_loop os (projects config)
       (perform os (Stdout (CHR 0x0A # ''Configured Projects:'')) s)"

text \<open>
  \<open>main\<close> starts where \<^verbatim>\<open>parser.parse_args()\<close> has returned; \<open>args\<close> is the namespace
  it returned. \<^verbatim>\<open>sys.exit\<close> raises \<^verbatim>\<open>SystemExit\<close>.
\<close>

record args =
  args_project :: "string option"
  args_list :: bool
  args_all :: bool

fun deploy_all ::
  "'w os \<Rightarrow> string list \<Rightarrow> config \<Rightarrow> 'w state \<Rightarrow> (exn + unit) \<times> 'w state" where
  "deploy_all os [] config s = (Inr (), s)"
| "deploy_all os (project_name # rest) config s =
     (case deploy_project os project_name config s of
        (Inl e, s1) \<Rightarrow> (Inl e, s1)
      | (Inr _, s1) \<Rightarrow> deploy_all os rest config s1)"

definition main :: "'w os \<Rightarrow> 'a args_scheme \<Rightarrow> 'w state \<Rightarrow> (exn + unit) \<times> 'w state" where
  "main os args s =
     (if \<not> path_exists os CONFIG_FILE (world s)
      then (Inl (SystemExit 1),
            log os ''ERROR'' (''Config file not found: '' @ path_str os CONFIG_FILE) s)
      else
        (let s1 = perform os (OpenRead CONFIG_FILE) s;
             config = safe_load os CONFIG_FILE (world s1)
         in if args_list args then (Inr (), list_projects os config s1)
            else if args_all args then deploy_all os (map fst (projects config)) config s1
            else if args_project args \<noteq> None \<and> args_project args \<noteq> Some []
            then (case deploy_project os (the (args_project args)) config s1 of
                    (Inl e, s2) \<Rightarrow> (Inl e, s2)
                  | (Inr _, s2) \<Rightarrow> (Inr (), s2))
            else (Inr (), perform os PrintHelp s1)))"


subsection \<open>src/orchestrator/orchestrator.py\<close>

text \<open>
  The second copy logs through the \<^verbatim>\<open>logging\<close> module. A logger is the file its
  file handler opened; a record goes to that file first and to the standard output
  second, in the order of the handlers, both with the same time stamp.
\<close>

definition ROOT_DIR :: path where
  "ROOT_DIR = Parent ScriptDir"

definition LIBS_DIR_pkg :: path where
  "LIBS_DIR_pkg = Join ROOT_DIR ''libs''"

definition LOG_DIR_pkg :: path where
  "LOG_DIR_pkg = Join ROOT_DIR ''logs''"

record logger =
  handler_file :: path


definition logger_log :: "'w os \<Rightarrow> logger \<Rightarrow> string \<Rightarrow> string \<Rightarrow> 'w state \<Rightarrow> 'w state" where
  "logger_log os logger levelname msg s =
     (let line = ''['' @ asctime os (world s) @ ''] ['' @ levelname @ ''] '' @ msg
      in perform os (Stdout line) (perform os (Write (handler_file logger) (line @ [CHR 0x0A])) s))"

definition logger_info :: "'w os \<Rightarrow> logger \<Rightarrow> string \<Rightarrow> 'w state \<Rightarrow> 'w state" where
  "logger_info os logger msg s = logger_log os logger ''INFO'' msg s"

definition logger_error :: "'w os \<Rightarrow> logger \<Rightarrow> string \<Rightarrow> 'w state \<Rightarrow> 'w state" where
  "logger_error os logger msg s = logger_log os logger ''ERROR'' msg s"

definition clone_or_update_pkg ::
  "'w os \<Rightarrow> string \<Rightarrow> string \<Rightarrow> string \<Rightarrow> path \<Rightarrow> logger \<Rightarrow> 'w state \<Rightarrow> bool \<times> 'w state" where
  "clone_or_update_pkg os name url branch target_dir logger s =
     (if path_exists os target_dir (world s) then
        (let s1 = logger_info os logger (''Updating '' @ name @ '' from '' @ branch @ ''...'') s;
             (success, s2) = run_cmd os (''git pull origin '' @ branch) (Some target_dir) False s1
         in (success, if success then logger_info os logger (name @ '' updated'') s2 else s2))
      else
        (let s1 = logger_info os logger (''Cloning '' @ name @ '' from '' @ url @ ''...'') s;
             (success, s2) = run_cmd os
               (''git clone -b '' @ branch @ '' '' @ url @ '' '' @ path_str os target_dir)
               None False s1
         in (success, if success then logger_info os logger (name @ '' cloned'') s2 else s2)))"

definition install_dependency_pkg ::
  "'w os \<Rightarrow> string \<Rightarrow> dep_config \<Rightarrow> logger \<Rightarrow> 'w state \<Rightarrow> (exn + bool) \<times> 'w state" where
  "install_dependency_pkg os dep_name dep_config logger s =
     (case dependency_url dep_config of
        None \<Rightarrow> (Inl (KeyError ''url''), s)
      | Some url \<Rightarrow>
     (let branch = (case dependency_branch dep_config of None \<Rightarrow> ''main'' | Some b \<Rightarrow> b) in
      case dependency_path dep_config of
        None \<Rightarrow> (Inl (KeyError ''path''), s)
      | Some path \<Rightarrow>
     (let has_req = (case dependency_requirements dep_config of None \<Rightarrow> False | Some r \<Rightarrow> r);
          dep_path = Join LIBS_DIR_pkg path;
          s1 = perform os (Mkdir (Parent dep_path) True) s;
          s2 = logger_info os logger (''Processing dependency: '' @ dep_name) s1;
          (synced, s3) = clone_or_update_pkg os dep_name url branch dep_path logger s2
      in if \<not> synced then (Inr False, s3)
         else
          (let s4 = (if has_req \<and> path_exists os (Join dep_path ''requirements.txt'') (world s3)
                     then snd (run_cmd os
                            (''pip install -r '' @ path_str os dep_path @ ''/requirements.txt'')
                            None True
                            (logger_info os logger
                               (''Installing requirements for '' @ dep_name @ ''...'') s3))
                     else s3);
               s5 = logger_info os logger (''Installing '' @ dep_name @ '' in editable mode...'') s4;
               s6 = snd (run_cmd os (''pip install -e '' @ path_str os dep_path) None True s5)
           in (Inr True, logger_info os logger (dep_name @ '' installed'') s6)))))"



text \<open>The loop of lines 120 to 123.\<close>

fun install_loop_pkg ::
  "'w os \<Rightarrow> (string \<times> dep_config) list \<Rightarrow> nat \<Rightarrow> (nat \<times> string) list \<Rightarrow> logger \<Rightarrow> 'w state
     \<Rightarrow> (exn + unit) \<times> 'w state" where
  "install_loop_pkg os all_deps n [] logger s = (Inr (), s)"
| "install_loop_pkg os all_deps n ((i, dep) # rest) logger s =
     (case map_of all_deps dep of
        None \<Rightarrow> install_loop_pkg os all_deps n rest logger s
      | Some dep_config \<Rightarrow>
          (let s1 = logger_info os logger (''['' @ str_nat i @ ''/'' @ str_nat n @ '']'') s
           in case install_dependency_pkg os dep dep_config logger s1 of
                (Inl e, s2) \<Rightarrow> (Inl e, s2)
              | (Inr _, s2) \<Rightarrow> install_loop_pkg os all_deps n rest logger s2))"

text \<open>Lines 117 to 123.\<close>

definition install_listed_pkg ::
  "'w os \<Rightarrow> string list \<Rightarrow> config \<Rightarrow> logger \<Rightarrow> 'w state \<Rightarrow> (exn + unit) \<times> 'w state" where
  "install_listed_pkg os deps config logger s =
     (if deps = [] then (Inr (), s)
      else
        (let s1 = logger_info os logger
                    (''Step 2: Installing '' @ str_nat (length deps) @ '' dependencies'') s;
             all_deps = dependencies config
         in install_loop_pkg os all_deps (length deps) (zip [1..<Suc (length deps)] deps) logger s1))"

text \<open>The loop of lines 129 to 133.\<close>

fun manifest_loop_pkg :: "'w os \<Rightarrow> path \<Rightarrow> string list \<Rightarrow> logger \<Rightarrow> 'w state \<Rightarrow> 'w state" where
  "manifest_loop_pkg os project_path [] logger s = s"
| "manifest_loop_pkg os project_path (raw # rest) logger s =
     (let line = strip raw
      in if line \<noteq> [] \<and> \<not> startswith line ''#''
         then manifest_loop_pkg os project_path rest logger
                (snd (run_cmd os line (Some project_path) False
                        (logger_info os logger (''> '' @ line) s)))
         else manifest_loop_pkg os project_path rest logger s)"

text \<open>Lines 125 to 133.\<close>

definition run_manifest_pkg :: "'w os \<Rightarrow> path \<Rightarrow> logger \<Rightarrow> 'w state \<Rightarrow> 'w state" where
  "run_manifest_pkg os project_path logger s =
     (let pkg_file = Join project_path ''repo_specific_packages.txt''
      in if path_exists os pkg_file (world s)
         then
           (let s1 = logger_info os logger ''Step 3: Running project-specific commands'' s;
                s2 = perform os (OpenRead pkg_file) s1
            in manifest_loop_pkg os project_path (file_lines os pkg_file (world s2)) logger s2)
         else s)"

text \<open>Lines 102 to 104 and lines 135 to 137.\<close>

definition announce_pkg :: "'w os \<Rightarrow> string \<Rightarrow> logger \<Rightarrow> 'w state \<Rightarrow> 'w state" where
  "announce_pkg os project_name logger s =
     logger_info os logger rule50
       (logger_info os logger (''Starting deployment: '' @ project_name)
         (logger_info os logger rule50 s))"

definition conclude_pkg :: "'w os \<Rightarrow> string \<Rightarrow> logger \<Rightarrow> 'w state \<Rightarrow> 'w state" where
  "conclude_pkg os project_name logger s =
     logger_info os logger rule50
       (logger_info os logger (''Deployment completed: '' @ project_name)
         (logger_info os logger rule50 s))"

definition deploy_project_pkg ::
  "'w os \<Rightarrow> string \<Rightarrow> config \<Rightarrow> logger \<Rightarrow> 'w state \<Rightarrow> (exn + bool) \<times> 'w state" where
  "deploy_project_pkg os project_name config logger s =
     (case map_of (projects config) project_name of
        None \<Rightarrow>
          (Inr False,
           logger_error os logger
             (''Project '' @ CHR 0x27 # project_name @ CHR 0x27 # '' not found in config'') s)
      | Some project_config \<Rightarrow>
     (let s1 = announce_pkg os project_name logger s in
      case project_url project_config of
        None \<Rightarrow> (Inl (KeyError ''url''), s1)
      | Some url \<Rightarrow>
     (let branch = (case project_branch project_config of None \<Rightarrow> ''main'' | Some b \<Rightarrow> b);
          deps = (case project_dependencies project_config of None \<Rightarrow> [] | Some ds \<Rightarrow> ds);
          project_path = Join ROOT_DIR project_name;
          s2 = logger_info os logger ''Step 1: Cloning/updating project repository'' s1;
          (synced, s3) = clone_or_update_pkg os project_name url branch project_path logger s2
      in if \<not> synced then (Inr False, s3)
         else
          (case install_listed_pkg os deps config logger s3 of
             (Inl e, s4) \<Rightarrow> (Inl e, s4)
           | (Inr _, s4) \<Rightarrow>
               (Inr True,
                conclude_pkg os project_name logger (run_manifest_pkg os project_path logger s4))))))"

text \<open>The state in which \<open>deploy_project_pkg\<close> calls \<open>clone_or_update_pkg\<close> (line 114).\<close>

definition before_sync_pkg :: "'w os \<Rightarrow> string \<Rightarrow> logger \<Rightarrow> 'w state \<Rightarrow> 'w state" where
  "before_sync_pkg os project_name logger s =
     logger_info os logger ''Step 1: Cloning/updating project repository''
       (announce_pkg os project_name logger s)"



record args_pkg = args +
  args_install_libs :: bool



subsection \<open>Names used in the statements\<close>

text \<open>
  The value \<^verbatim>\<open>d.get('branch', 'main')\<close> of a record, the call of \<open>clone_or_update\<close>
  that \<open>install_dependency\<close> makes (line 67) and the one \<open>deploy_project\<close> makes
  (line 98), each in the state in which it is made, and the same for the second copy.
\<close>

definition branch_or_main :: "string option \<Rightarrow> string" where
  "branch_or_main b = (case b of None \<Rightarrow> ''main'' | Some b \<Rightarrow> b)"

definition dependency_sync ::
  "'w os \<Rightarrow> string \<Rightarrow> string \<Rightarrow> string \<Rightarrow> string \<Rightarrow> 'w state \<Rightarrow> bool \<times> 'w state" where
  "dependency_sync os dep_name url branch path s =
     clone_or_update os dep_name url branch (Join LIBS_DIR path)
       (log os ''INFO'' (''Processing dependency: '' @ dep_name)
         (perform os (Mkdir (Parent (Join LIBS_DIR path)) True) s))"

definition dependency_sync_pkg ::
  "'w os \<Rightarrow> string \<Rightarrow> string \<Rightarrow> string \<Rightarrow> string \<Rightarrow> logger \<Rightarrow> 'w state \<Rightarrow> bool \<times> 'w state" where
  "dependency_sync_pkg os dep_name url branch path logger s =
     clone_or_update_pkg os dep_name url branch (Join LIBS_DIR_pkg path) logger
       (logger_info os logger (''Processing dependency: '' @ dep_name)
         (perform os (Mkdir (Parent (Join LIBS_DIR_pkg path)) True) s))"

definition project_sync ::
  "'w os \<Rightarrow> string \<Rightarrow> string \<Rightarrow> string \<Rightarrow> 'w state \<Rightarrow> bool \<times> 'w state" where
  "project_sync os project_name url branch s =
     clone_or_update os project_name url branch (Join REPOS_DIR project_name)
       (before_sync os project_name s)"

definition project_sync_pkg ::
  "'w os \<Rightarrow> string \<Rightarrow> string \<Rightarrow> string \<Rightarrow> logger \<Rightarrow> 'w state \<Rightarrow> bool \<times> 'w state" where
  "project_sync_pkg os project_name url branch logger s =
     clone_or_update_pkg os project_name url branch (Join ROOT_DIR project_name) logger
       (before_sync_pkg os project_name logger s)"

text \<open>The dependency list of a project record, \<^verbatim>\<open>get('dependencies', [])\<close>.\<close>

definition deps_or_empty :: "string list option \<Rightarrow> string list" where
  "deps_or_empty d = (case d of None \<Rightarrow> [] | Some ds \<Rightarrow> ds)"

text \<open>
  The records that the names of a dependency list resolve to, in the order of the list,
  and the directories that \<open>install_dependency\<close> creates for them.
\<close>

definition resolved :: "(string \<times> dep_config) list \<Rightarrow> string list \<Rightarrow> dep_config list" where
  "resolved all_deps deps = List.map_filter (map_of all_deps) deps"

definition lib_parents :: "path \<Rightarrow> dep_config list \<Rightarrow> path list" where
  "lib_parents libs dcs =
     concat (map (\<lambda>dc. case dependency_path dc of None \<Rightarrow> [] | Some p \<Rightarrow> [Parent (Join libs p)]) dcs)"

text \<open>A record with its required keys, and a document all of whose records have them.\<close>

definition dep_complete :: "dep_config \<Rightarrow> bool" where
  "dep_complete dc \<longleftrightarrow> dependency_url dc \<noteq> None \<and> dependency_path dc \<noteq> None"


text \<open>
  The four commands of the installer and the syncer, as \<open>commands\<close> lists them, and the
  commands that were run between two states.
\<close>

definition pull_command :: "string \<Rightarrow> path \<Rightarrow> string \<times> path option \<times> bool" where
  "pull_command branch target_dir = (''git pull origin '' @ branch, Some target_dir, False)"

definition clone_command ::
  "'w os \<Rightarrow> string \<Rightarrow> string \<Rightarrow> path \<Rightarrow> string \<times> path option \<times> bool" where
  "clone_command os branch url target_dir =
     (''git clone -b '' @ branch @ '' '' @ url @ '' '' @ path_str os target_dir, None, False)"

definition requirements_install :: "'w os \<Rightarrow> path \<Rightarrow> string \<times> path option \<times> bool" where
  "requirements_install os dep_path =
     (''pip install -r '' @ path_str os dep_path @ ''/requirements.txt'', None, True)"

definition editable_install :: "'w os \<Rightarrow> path \<Rightarrow> string \<times> path option \<times> bool" where
  "editable_install os dep_path = (''pip install -e '' @ path_str os dep_path, None, True)"

definition commands_after :: "'w state \<Rightarrow> 'w state \<Rightarrow> (string \<times> path option \<times> bool) list" where
  "commands_after s s' = drop (length (commands (trace s))) (commands (trace s'))"

text \<open>The lines of a manifest that are run, as they are run.\<close>

definition runnable :: "string list \<Rightarrow> string list" where
  "runnable raws = filter (\<lambda>l. l \<noteq> [] \<and> \<not> startswith l ''#'') (map strip raws)"

subsection \<open>A small world for the examples\<close>

text \<open>
  The world is the list of the paths that exist. Creating a directory or opening a file
  for appending adds its path; a command fails when it is on the list \<open>failing\<close>; the
  files and the configuration document are fixed.
\<close>

fun demo_str :: "path \<Rightarrow> string" where
  "demo_str ScriptDir = ''/opt/orchestrator''"
| "demo_str (Join p n) = demo_str p @ ''/'' @ n"
| "demo_str (Parent p) = demo_str p @ ''/..''"

fun demo_effect :: "event \<Rightarrow> path list \<Rightarrow> path list" where
  "demo_effect (Mkdir p parents) w = p # w"
| "demo_effect (OpenAppend p) w = p # w"
| "demo_effect e w = w"

definition demo_os ::
  "string list \<Rightarrow> (path \<times> string list) list \<Rightarrow> config \<Rightarrow> (path list) os" where
  "demo_os failing files cfg =
     \<lparr>path_exists = (\<lambda>p w. p \<in> set w),
      path_str = demo_str,
      returncode = (\<lambda>cmd cwd capture w. if cmd \<in> set failing then 1 else 0),
      file_lines = (\<lambda>p w. case map_of files p of None \<Rightarrow> [] | Some ls \<Rightarrow> ls),
      safe_load = (\<lambda>p w. cfg),
      strftime_now = (\<lambda>fmt w. if fmt = ''%Y%m%d'' then ''20260101'' else ''2026-01-01 12:00:00''),
      asctime = (\<lambda>w. ''2026-01-01 12:00:00,000''),
      apply_event = demo_effect\<rparr>"

definition start :: "path list \<Rightarrow> (path list) state" where
  "start w = \<lparr>world = w, trace = []\<rparr>"

definition demo_logger :: logger where
  "demo_logger = \<lparr>handler_file = Join LOG_DIR_pkg ''orchestrator_20260101.log''\<rparr>"

text \<open>
  The configuration of the end-to-end scenario, with a second project that lists a name
  the dependency mapping does not have, and a document whose only project has no
  \<^verbatim>\<open>url\<close>.
\<close>

definition demo_libx :: dep_config where
  "demo_libx = \<lparr>dependency_url = Some ''https://example/libx.git'', dependency_branch = None,
     dependency_path = Some ''libx'', dependency_requirements = Some True\<rparr>"

definition demo_liby :: dep_config where
  "demo_liby = \<lparr>dependency_url = Some ''https://example/liby.git'',
     dependency_branch = Some ''dev'', dependency_path = Some ''vendor/liby'',
     dependency_requirements = None\<rparr>"

definition demo_app :: project_config where
  "demo_app = \<lparr>project_url = Some ''https://example/app.git'', project_branch = Some ''main'',
     project_dependencies = Some [''libx'']\<rparr>"

definition demo_web :: project_config where
  "demo_web = \<lparr>project_url = Some ''https://example/web.git'', project_branch = None,
     project_dependencies = Some [''ghost'', ''libx'', ''liby'']\<rparr>"

definition demo_config :: config where
  "demo_config = \<lparr>projects = [(''app'', demo_app), (''web'', demo_web)],
     dependencies = [(''libx'', demo_libx), (''liby'', demo_liby)]\<rparr>"

definition bare_project :: project_config where
  "bare_project = \<lparr>project_url = None, project_branch = Some ''dev'',
     project_dependencies = None\<rparr>"

definition broken_config :: config where
  "broken_config = \<lparr>projects = [(''bare'', bare_project)], dependencies = []\<rparr>"

text \<open>
  A checkout of \<open>app\<close> that is already there, with a manifest of six lines, and three
  worlds around it: one where every command succeeds, one where the installs and the
  manifest command \<^verbatim>\<open>false\<close> fail, one where the pull fails.
\<close>

definition app_manifest :: path where
  "app_manifest = Join (Join REPOS_DIR ''app'') ''repo_specific_packages.txt''"

definition demo_lines :: "string list" where
  "demo_lines =
     [''# tools'' @ [CHR 0x0A],
      ''  # indented note'' @ [CHR 0x0A],
      [CHR 0x0A],
      [CHR 0x09, CHR 0x20, CHR 0x0A],
      ''  make build  '' @ [CHR 0x0A],
      ''false'']"

definition deployed :: "path list" where
  "deployed = [Join REPOS_DIR ''app'', app_manifest]"

definition calm_os :: "(path list) os" where
  "calm_os = demo_os [] [(app_manifest, demo_lines)] demo_config"

definition flaky_os :: "(path list) os" where
  "flaky_os =
     demo_os [''pip install -r /opt/orchestrator/libs/libx/requirements.txt'',
              ''pip install -e /opt/orchestrator/libs/libx'', ''false'']
       [(app_manifest, demo_lines)] demo_config"

definition offline_os :: "(path list) os" where
  "offline_os = demo_os [''git pull origin main''] [(app_manifest, demo_lines)] demo_config"

section \<open>Properties\<close>

subsection \<open>Traces\<close>

lemma trace_perform [simp]: "trace (perform os e s) = trace s @ [e]"
  by (simp add: perform_def)

lemma world_perform [simp]: "world (perform os e s) = apply_event os e (world s)"
  by (simp add: perform_def)

lemma commands_append [simp]: "commands (xs @ ys) = commands xs @ commands ys"
  by (induction xs rule: commands.induct) simp_all

lemma made_parents_append [simp]: "made_parents (xs @ ys) = made_parents xs @ made_parents ys"
  by (induction xs rule: made_parents.induct) simp_all

lemma commands_log [simp]: "commands (trace (log os level msg s)) = commands (trace s)"
  by (simp add: log_def Let_def)

lemma made_parents_log [simp]: "made_parents (trace (log os level msg s)) = made_parents (trace s)"
  by (simp add: log_def Let_def LOG_DIR_def)

lemma commands_logger_info [simp]:
  "commands (trace (logger_info os lg msg s)) = commands (trace s)"
  by (simp add: logger_info_def logger_log_def Let_def)

lemma made_parents_logger_info [simp]:
  "made_parents (trace (logger_info os lg msg s)) = made_parents (trace s)"
  by (simp add: logger_info_def logger_log_def Let_def)

lemma fst_run_cmd [simp]:
  "fst (run_cmd os cmd cwd quiet s) = (returncode os cmd cwd quiet (world s) = 0)"
  by (simp add: run_cmd_def)

lemma commands_run_cmd [simp]:
  "commands (trace (snd (run_cmd os cmd cwd quiet s))) = commands (trace s) @ [(cmd, cwd, quiet)]"
  by (simp add: run_cmd_def)

lemma made_parents_run_cmd [simp]:
  "made_parents (trace (snd (run_cmd os cmd cwd quiet s))) = made_parents (trace s)"
  by (simp add: run_cmd_def)

lemma commands_clone_or_update:
  "commands (trace (snd (clone_or_update os name url branch target_dir s))) =
     commands (trace s) @
       [if path_exists os target_dir (world s)
        then (''git pull origin '' @ branch, Some target_dir, False)
        else (''git clone -b '' @ branch @ '' '' @ url @ '' '' @ path_str os target_dir, None, False)]"
  by (simp add: clone_or_update_def Let_def split_def)

lemma commands_clone_or_update_pkg:
  "commands (trace (snd (clone_or_update_pkg os name url branch target_dir lg s))) =
     commands (trace s) @
       [if path_exists os target_dir (world s)
        then (''git pull origin '' @ branch, Some target_dir, False)
        else (''git clone -b '' @ branch @ '' '' @ url @ '' '' @ path_str os target_dir, None, False)]"
  by (simp add: clone_or_update_pkg_def Let_def split_def)

lemma made_parents_clone_or_update [simp]:
  "made_parents (trace (snd (clone_or_update os name url branch target_dir s))) =
     made_parents (trace s)"
  by (simp add: clone_or_update_def Let_def split_def)

lemma made_parents_clone_or_update_pkg [simp]:
  "made_parents (trace (snd (clone_or_update_pkg os name url branch target_dir lg s))) =
     made_parents (trace s)"
  by (simp add: clone_or_update_pkg_def Let_def split_def)

lemma fst_clone_or_update:
  "fst (clone_or_update os name url branch target_dir s) =
     (if path_exists os target_dir (world s)
      then returncode os (''git pull origin '' @ branch) (Some target_dir) False
             (world (log os ''INFO'' (''Updating '' @ name @ '' from '' @ branch @ ''...'') s)) = 0
      else returncode os
             (''git clone -b '' @ branch @ '' '' @ url @ '' '' @ path_str os target_dir) None False
             (world (log os ''INFO'' (''Cloning '' @ name @ '' from '' @ url @ ''...'') s)) = 0)"
  by (simp add: clone_or_update_def Let_def split_def)

lemma fst_clone_or_update_pkg:
  "fst (clone_or_update_pkg os name url branch target_dir lg s) =
     (if path_exists os target_dir (world s)
      then returncode os (''git pull origin '' @ branch) (Some target_dir) False
             (world (logger_info os lg (''Updating '' @ name @ '' from '' @ branch @ ''...'') s)) = 0
      else returncode os
             (''git clone -b '' @ branch @ '' '' @ url @ '' '' @ path_str os target_dir) None False
             (world (logger_info os lg (''Cloning '' @ name @ '' from '' @ url @ ''...'') s)) = 0)"
  by (simp add: clone_or_update_pkg_def Let_def split_def)

subsection \<open>The repository syncer\<close>

text \<open>
  Claim C2. Every call of \<open>clone_or_update\<close> runs exactly one command: a pull of the
  branch in the target directory when that directory exists in the state of the call, a
  clone of the branch from the URL otherwise. The result is whether that command returned
  0. The same holds for the second copy.
\<close>

theorem clone_or_update_one_command:
  "commands (trace (snd (clone_or_update os name url branch target_dir s))) =
     commands (trace s) @
       [if path_exists os target_dir (world s)
        then (''git pull origin '' @ branch, Some target_dir, False)
        else (''git clone -b '' @ branch @ '' '' @ url @ '' '' @ path_str os target_dir, None, False)]
   \<and> fst (clone_or_update os name url branch target_dir s) =
     (if path_exists os target_dir (world s)
      then returncode os (''git pull origin '' @ branch) (Some target_dir) False
             (world (log os ''INFO'' (''Updating '' @ name @ '' from '' @ branch @ ''...'') s)) = 0
      else returncode os
             (''git clone -b '' @ branch @ '' '' @ url @ '' '' @ path_str os target_dir) None False
             (world (log os ''INFO'' (''Cloning '' @ name @ '' from '' @ url @ ''...'') s)) = 0)
   \<and> commands (trace (snd (clone_or_update_pkg os name url branch target_dir lg s))) =
     commands (trace s) @
       [if path_exists os target_dir (world s)
        then (''git pull origin '' @ branch, Some target_dir, False)
        else (''git clone -b '' @ branch @ '' '' @ url @ '' '' @ path_str os target_dir, None, False)]
   \<and> fst (clone_or_update_pkg os name url branch target_dir lg s) =
     (if path_exists os target_dir (world s)
      then returncode os (''git pull origin '' @ branch) (Some target_dir) False
             (world (logger_info os lg (''Updating '' @ name @ '' from '' @ branch @ ''...'') s)) = 0
      else returncode os
             (''git clone -b '' @ branch @ '' '' @ url @ '' '' @ path_str os target_dir) None False
             (world (logger_info os lg (''Cloning '' @ name @ '' from '' @ url @ ''...'') s)) = 0)"
  using commands_clone_or_update [of os name url branch target_dir s]
        fst_clone_or_update [of os name url branch target_dir s]
        commands_clone_or_update_pkg [of os name url branch target_dir lg s]
        fst_clone_or_update_pkg [of os name url branch target_dir lg s]
  by simp

theorem clone_or_update_one_command_witness:
  "commands (trace (snd (clone_or_update (demo_os [] [] \<lparr>projects = [], dependencies = []\<rparr>)
       ''app'' ''https://example/app.git'' ''main'' (Join REPOS_DIR ''app'') (start [])))) =
     [(''git clone -b main https://example/app.git /opt/orchestrator/repos/app'', None, False)]
   \<and> commands (trace (snd (clone_or_update_pkg (demo_os [''git pull origin main''] [] \<lparr>projects = [], dependencies = []\<rparr>)
       ''app'' ''https://example/app.git'' ''main'' (Join ROOT_DIR ''app'') demo_logger
       (start [Join ROOT_DIR ''app''])))) =
     [(''git pull origin main'', Some (Join ROOT_DIR ''app''), False)]
   \<and> fst (clone_or_update_pkg (demo_os [''git pull origin main''] [] \<lparr>projects = [], dependencies = []\<rparr>)
       ''app'' ''https://example/app.git'' ''main'' (Join ROOT_DIR ''app'') demo_logger
       (start [Join ROOT_DIR ''app''])) = False"
  using clone_or_update_one_command [of "demo_os [] [] \<lparr>projects = [], dependencies = []\<rparr>"
      "''app''" "''https://example/app.git''" "''main''" "Join REPOS_DIR ''app''" "start []"]
    clone_or_update_one_command [of "demo_os [''git pull origin main''] [] \<lparr>projects = [], dependencies = []\<rparr>"
      "''app''" "''https://example/app.git''" "''main''" "Join ROOT_DIR ''app''" "start [Join ROOT_DIR ''app'']"
      demo_logger]
  by (simp add: demo_os_def start_def REPOS_DIR_def ROOT_DIR_def)

subsection \<open>Lemmas about src/orchestrator.py\<close>

lemma install_dependency_no_url:
  "dependency_url dc = None \<Longrightarrow> install_dependency os dep dc s = (Inl (KeyError ''url''), s)"
  by (simp add: install_dependency_def)

lemma install_dependency_no_path:
  "dependency_url dc = Some url \<Longrightarrow> dependency_path dc = None \<Longrightarrow>
   install_dependency os dep dc s = (Inl (KeyError ''path''), s)"
  by (simp add: install_dependency_def)

lemma install_dependency_sync_failed:
  "dependency_url dc = Some url \<Longrightarrow> dependency_path dc = Some path \<Longrightarrow>
   \<not> fst (dependency_sync os dep url (branch_or_main (dependency_branch dc)) path s) \<Longrightarrow>
   install_dependency os dep dc s =
     (Inr False, snd (dependency_sync os dep url (branch_or_main (dependency_branch dc)) path s))"
  by (simp add: install_dependency_def dependency_sync_def branch_or_main_def Let_def split_def)

lemma install_dependency_synced:
  "dependency_url dc = Some url \<Longrightarrow> dependency_path dc = Some path \<Longrightarrow>
   fst (dependency_sync os dep url (branch_or_main (dependency_branch dc)) path s) \<Longrightarrow>
   fst (install_dependency os dep dc s) = Inr True \<and>
   commands (trace (snd (install_dependency os dep dc s))) =
     commands (trace (snd (dependency_sync os dep url (branch_or_main (dependency_branch dc)) path s)))
     @ (if dependency_requirements dc = Some True \<and>
           path_exists os (Join (Join LIBS_DIR path) ''requirements.txt'')
             (world (snd (dependency_sync os dep url (branch_or_main (dependency_branch dc)) path s)))
        then [(''pip install -r '' @ path_str os (Join LIBS_DIR path) @ ''/requirements.txt'', None, True)]
        else [])
     @ [(''pip install -e '' @ path_str os (Join LIBS_DIR path), None, True)]"
  by (cases "dependency_requirements dc")
     (simp_all add: install_dependency_def dependency_sync_def branch_or_main_def Let_def split_def)

lemma commands_dependency_sync:
  "commands (trace (snd (dependency_sync os dep url branch path s))) =
     commands (trace s) @
       [if path_exists os (Join LIBS_DIR path)
             (world (log os ''INFO'' (''Processing dependency: '' @ dep)
                (perform os (Mkdir (Parent (Join LIBS_DIR path)) True) s)))
        then (''git pull origin '' @ branch, Some (Join LIBS_DIR path), False)
        else (''git clone -b '' @ branch @ '' '' @ url @ '' '' @ path_str os (Join LIBS_DIR path),
              None, False)]"
  by (simp add: dependency_sync_def commands_clone_or_update)

lemma made_parents_install_dependency:
  "fst (install_dependency os dep dc s) = Inr b \<Longrightarrow>
   made_parents (trace (snd (install_dependency os dep dc s))) =
     made_parents (trace s) @ lib_parents LIBS_DIR [dc]"
  by (cases "dependency_requirements dc")
     (auto simp add: install_dependency_def lib_parents_def Let_def split_def
       split: option.splits if_splits)

lemma install_dependency_returns:
  "dep_complete dc \<Longrightarrow> \<exists>b. fst (install_dependency os dep dc s) = Inr b"
  by (auto simp add: install_dependency_def dep_complete_def Let_def split_def)

lemma resolved_Nil [simp]: "resolved all_deps [] = []"
  by (simp add: resolved_def map_filter_simps)

lemma resolved_Cons:
  "resolved all_deps (dep # deps) =
     (case map_of all_deps dep of None \<Rightarrow> resolved all_deps deps
      | Some dc \<Rightarrow> dc # resolved all_deps deps)"
  by (cases "map_of all_deps dep") (simp_all add: resolved_def map_filter_simps)

lemma install_loop_skips:
  "install_loop os all_deps n ideps s =
     install_loop os all_deps n (filter (\<lambda>(i, dep). map_of all_deps dep \<noteq> None) ideps) s"
proof (induction ideps arbitrary: s)
  case Nil
  show ?case by simp
next
  case (Cons a ideps)
  obtain i dep where a: "a = (i, dep)" by (cases a)
  show ?case
  proof (cases "map_of all_deps dep")
    case None
    with a Cons show ?thesis by simp
  next
    case (Some dc)
    with a Cons show ?thesis
      by (simp add: Let_def split: prod.splits sum.splits)
  qed
qed

lemma made_parents_install_loop:
  "fst (install_loop os all_deps n ideps s) = Inr u \<Longrightarrow>
   made_parents (trace (snd (install_loop os all_deps n ideps s))) =
     made_parents (trace s) @ lib_parents LIBS_DIR (resolved all_deps (map snd ideps))"
proof (induction ideps arbitrary: s)
  case Nil
  show ?case by (simp add: lib_parents_def)
next
  case (Cons a ideps)
  obtain i dep where a: "a = (i, dep)" by (cases a)
  show ?case
  proof (cases "map_of all_deps dep")
    case None
    with a Cons show ?thesis by (simp add: resolved_Cons)
  next
    case (Some dc)
    let ?s1 = "perform os (Stdout (CHR 0x0A # ''['' @ str_nat i @ ''/'' @ str_nat n @ '']'')) s"
    obtain r s2 where r: "install_dependency os dep dc ?s1 = (r, s2)"
      by (cases "install_dependency os dep dc ?s1")
    show ?thesis
    proof (cases r)
      case (Inl e)
      with a Some r Cons.prems show ?thesis by (simp add: Let_def)
    next
      case (Inr b)
      with a Some r Cons.prems have rest: "fst (install_loop os all_deps n ideps s2) = Inr u"
        by (simp add: Let_def)
      from r Inr have "made_parents (trace s2) = made_parents (trace ?s1) @ lib_parents LIBS_DIR [dc]"
        using made_parents_install_dependency [of os dep dc ?s1 b] by simp
      moreover have "lib_parents LIBS_DIR (dc # resolved all_deps (map snd ideps)) =
          lib_parents LIBS_DIR [dc] @ lib_parents LIBS_DIR (resolved all_deps (map snd ideps))"
        by (simp add: lib_parents_def)
      ultimately show ?thesis
        using Cons.IH [OF rest] a Some r Inr by (simp add: Let_def resolved_Cons)
    qed
  qed
qed

lemma install_loop_returns:
  "list_all dep_complete (resolved all_deps (map snd ideps)) \<Longrightarrow>
   fst (install_loop os all_deps n ideps s) = Inr ()"
proof (induction ideps arbitrary: s)
  case Nil
  show ?case by simp
next
  case (Cons a ideps)
  obtain i dep where a: "a = (i, dep)" by (cases a)
  show ?case
  proof (cases "map_of all_deps dep")
    case None
    with a Cons show ?thesis by (simp add: resolved_Cons)
  next
    case (Some dc)
    let ?s1 = "perform os (Stdout (CHR 0x0A # ''['' @ str_nat i @ ''/'' @ str_nat n @ '']'')) s"
    from a Some Cons.prems have dc: "dep_complete dc"
      and rest: "list_all dep_complete (resolved all_deps (map snd ideps))"
      by (simp_all add: resolved_Cons)
    from install_dependency_returns [OF dc, of os dep ?s1]
    obtain b where "fst (install_dependency os dep dc ?s1) = Inr b" ..
    then obtain s2 where "install_dependency os dep dc ?s1 = (Inr b, s2)"
      by (cases "install_dependency os dep dc ?s1") simp
    with a Some Cons.IH [OF rest] show ?thesis by (simp add: Let_def)
  qed
qed

lemma map_snd_enumerate [simp]: "map snd (zip [1..<Suc (length deps)] deps) = deps"
  by (simp add: map_snd_zip del: upt_Suc)

lemma made_parents_install_listed:
  "fst (install_listed os deps config s) = Inr u \<Longrightarrow>
   made_parents (trace (snd (install_listed os deps config s))) =
     made_parents (trace s) @ lib_parents LIBS_DIR (resolved (dependencies config) deps)"
proof (cases "deps = []")
  case True
  then show ?thesis by (simp add: install_listed_def lib_parents_def)
next
  case False
  assume "fst (install_listed os deps config s) = Inr u"
  with False show ?thesis
    using made_parents_install_loop [of os "dependencies config" "length deps"
        "zip [1..<Suc (length deps)] deps"
        "log os ''INFO'' (''Step 2: Installing '' @ str_nat (length deps) @ '' dependencies'')
           (perform os (Stdout []) s)" u]
    by (simp add: install_listed_def Let_def del: upt_Suc)
qed

lemma install_listed_returns:
  "list_all dep_complete (resolved (dependencies config) deps) \<Longrightarrow>
   fst (install_listed os deps config s) = Inr ()"
  using install_loop_returns [of "dependencies config" "zip [1..<Suc (length deps)] deps" os "length deps"]
  by (simp add: install_listed_def Let_def del: upt_Suc)

lemma commands_manifest_loop:
  "commands (trace (manifest_loop os project_path raws s)) =
     commands (trace s) @ map (\<lambda>l. (l, Some project_path, False)) (runnable raws)"
  by (induction raws arbitrary: s) (simp_all add: runnable_def Let_def)

lemma commands_run_manifest:
  "commands (trace (run_manifest os project_path s)) =
     commands (trace s) @
       (if path_exists os (Join project_path ''repo_specific_packages.txt'') (world s)
        then map (\<lambda>l. (l, Some project_path, False))
               (runnable (file_lines os (Join project_path ''repo_specific_packages.txt'')
                  (world (perform os (OpenRead (Join project_path ''repo_specific_packages.txt''))
                     (log os ''INFO'' ''Step 3: Running project-specific commands''
                        (perform os (Stdout []) s))))))
        else [])"
  by (simp add: run_manifest_def Let_def commands_manifest_loop)

lemma commands_announce [simp]: "commands (trace (announce os name s)) = commands (trace s)"
  by (simp add: announce_def)

lemma commands_conclude [simp]: "commands (trace (conclude os name s)) = commands (trace s)"
  by (simp add: conclude_def)

lemma deploy_project_unknown:
  "map_of (projects config) name = None \<Longrightarrow>
   deploy_project os name config s =
     (Inr False,
      log os ''ERROR'' (''Project '' @ CHR 0x27 # name @ CHR 0x27 # '' not found in config'') s)"
  by (simp add: deploy_project_def)

lemma deploy_project_no_url:
  "map_of (projects config) name = Some pc \<Longrightarrow> project_url pc = None \<Longrightarrow>
   deploy_project os name config s = (Inl (KeyError ''url''), announce os name s)"
  by (simp add: deploy_project_def Let_def)

lemma deploy_project_sync_failed:
  "map_of (projects config) name = Some pc \<Longrightarrow> project_url pc = Some url \<Longrightarrow>
   \<not> fst (project_sync os name url (branch_or_main (project_branch pc)) s) \<Longrightarrow>
   deploy_project os name config s =
     (Inr False, snd (project_sync os name url (branch_or_main (project_branch pc)) s))"
  by (simp add: deploy_project_def project_sync_def before_sync_def branch_or_main_def
        Let_def split_def)

lemma deploy_project_synced:
  "map_of (projects config) name = Some pc \<Longrightarrow> project_url pc = Some url \<Longrightarrow>
   fst (project_sync os name url (branch_or_main (project_branch pc)) s) \<Longrightarrow>
   deploy_project os name config s =
     (case install_listed os (deps_or_empty (project_dependencies pc)) config
             (snd (project_sync os name url (branch_or_main (project_branch pc)) s)) of
        (Inl e, s5) \<Rightarrow> (Inl e, s5)
      | (Inr u, s5) \<Rightarrow>
          (Inr True, conclude os name (run_manifest os (Join REPOS_DIR name) s5)))"
  by (simp add: deploy_project_def project_sync_def before_sync_def branch_or_main_def
        deps_or_empty_def Let_def split_def)

subsection \<open>Lemmas about src/orchestrator/orchestrator.py\<close>

lemma install_dependency_no_url_pkg:
  "dependency_url dc = None \<Longrightarrow> install_dependency_pkg os dep dc lg s = (Inl (KeyError ''url''), s)"
  by (simp add: install_dependency_pkg_def)

lemma install_dependency_no_path_pkg:
  "dependency_url dc = Some url \<Longrightarrow> dependency_path dc = None \<Longrightarrow>
   install_dependency_pkg os dep dc lg s = (Inl (KeyError ''path''), s)"
  by (simp add: install_dependency_pkg_def)

lemma install_dependency_sync_failed_pkg:
  "dependency_url dc = Some url \<Longrightarrow> dependency_path dc = Some path \<Longrightarrow>
   \<not> fst (dependency_sync_pkg os dep url (branch_or_main (dependency_branch dc)) path lg s) \<Longrightarrow>
   install_dependency_pkg os dep dc lg s =
     (Inr False, snd (dependency_sync_pkg os dep url (branch_or_main (dependency_branch dc)) path lg s))"
  by (simp add: install_dependency_pkg_def dependency_sync_pkg_def branch_or_main_def Let_def split_def)

lemma install_dependency_synced_pkg:
  "dependency_url dc = Some url \<Longrightarrow> dependency_path dc = Some path \<Longrightarrow>
   fst (dependency_sync_pkg os dep url (branch_or_main (dependency_branch dc)) path lg s) \<Longrightarrow>
   fst (install_dependency_pkg os dep dc lg s) = Inr True \<and>
   commands (trace (snd (install_dependency_pkg os dep dc lg s))) =
     commands (trace (snd (dependency_sync_pkg os dep url (branch_or_main (dependency_branch dc)) path lg s)))
     @ (if dependency_requirements dc = Some True \<and>
           path_exists os (Join (Join LIBS_DIR_pkg path) ''requirements.txt'')
             (world (snd (dependency_sync_pkg os dep url (branch_or_main (dependency_branch dc)) path lg s)))
        then [(''pip install -r '' @ path_str os (Join LIBS_DIR_pkg path) @ ''/requirements.txt'', None, True)]
        else [])
     @ [(''pip install -e '' @ path_str os (Join LIBS_DIR_pkg path), None, True)]"
  by (cases "dependency_requirements dc")
     (simp_all add: install_dependency_pkg_def dependency_sync_pkg_def branch_or_main_def Let_def split_def)

lemma commands_dependency_sync_pkg:
  "commands (trace (snd (dependency_sync_pkg os dep url branch path lg s))) =
     commands (trace s) @
       [if path_exists os (Join LIBS_DIR_pkg path)
             (world (logger_info os lg (''Processing dependency: '' @ dep)
                (perform os (Mkdir (Parent (Join LIBS_DIR_pkg path)) True) s)))
        then (''git pull origin '' @ branch, Some (Join LIBS_DIR_pkg path), False)
        else (''git clone -b '' @ branch @ '' '' @ url @ '' '' @ path_str os (Join LIBS_DIR_pkg path),
              None, False)]"
  by (simp add: dependency_sync_pkg_def commands_clone_or_update_pkg)

lemma made_parents_install_dependency_pkg:
  "fst (install_dependency_pkg os dep dc lg s) = Inr b \<Longrightarrow>
   made_parents (trace (snd (install_dependency_pkg os dep dc lg s))) =
     made_parents (trace s) @ lib_parents LIBS_DIR_pkg [dc]"
  by (cases "dependency_requirements dc")
     (auto simp add: install_dependency_pkg_def lib_parents_def Let_def split_def
       split: option.splits if_splits)

lemma install_dependency_returns_pkg:
  "dep_complete dc \<Longrightarrow> \<exists>b. fst (install_dependency_pkg os dep dc lg s) = Inr b"
  by (auto simp add: install_dependency_pkg_def dep_complete_def Let_def split_def)

lemma install_loop_skips_pkg:
  "install_loop_pkg os all_deps n ideps lg s =
     install_loop_pkg os all_deps n (filter (\<lambda>(i, dep). map_of all_deps dep \<noteq> None) ideps) lg s"
proof (induction ideps arbitrary: s)
  case Nil
  show ?case by simp
next
  case (Cons a ideps)
  obtain i dep where a: "a = (i, dep)" by (cases a)
  show ?case
  proof (cases "map_of all_deps dep")
    case None
    with a Cons show ?thesis by simp
  next
    case (Some dc)
    with a Cons show ?thesis
      by (simp add: Let_def split: prod.splits sum.splits)
  qed
qed

lemma made_parents_install_loop_pkg:
  "fst (install_loop_pkg os all_deps n ideps lg s) = Inr u \<Longrightarrow>
   made_parents (trace (snd (install_loop_pkg os all_deps n ideps lg s))) =
     made_parents (trace s) @ lib_parents LIBS_DIR_pkg (resolved all_deps (map snd ideps))"
proof (induction ideps arbitrary: s)
  case Nil
  show ?case by (simp add: lib_parents_def)
next
  case (Cons a ideps)
  obtain i dep where a: "a = (i, dep)" by (cases a)
  show ?case
  proof (cases "map_of all_deps dep")
    case None
    with a Cons show ?thesis by (simp add: resolved_Cons)
  next
    case (Some dc)
    let ?s1 = "logger_info os lg (''['' @ str_nat i @ ''/'' @ str_nat n @ '']'') s"
    obtain r s2 where r: "install_dependency_pkg os dep dc lg ?s1 = (r, s2)"
      by (cases "install_dependency_pkg os dep dc lg ?s1")
    show ?thesis
    proof (cases r)
      case (Inl e)
      with a Some r Cons.prems show ?thesis by (simp add: Let_def)
    next
      case (Inr b)
      with a Some r Cons.prems have rest: "fst (install_loop_pkg os all_deps n ideps lg s2) = Inr u"
        by (simp add: Let_def)
      from r Inr have "made_parents (trace s2) = made_parents (trace ?s1) @ lib_parents LIBS_DIR_pkg [dc]"
        using made_parents_install_dependency_pkg [of os dep dc lg ?s1 b] by simp
      moreover have "lib_parents LIBS_DIR_pkg (dc # resolved all_deps (map snd ideps)) =
          lib_parents LIBS_DIR_pkg [dc] @ lib_parents LIBS_DIR_pkg (resolved all_deps (map snd ideps))"
        by (simp add: lib_parents_def)
      ultimately show ?thesis
        using Cons.IH [OF rest] a Some r Inr by (simp add: Let_def resolved_Cons)
    qed
  qed
qed

lemma install_loop_returns_pkg:
  "list_all dep_complete (resolved all_deps (map snd ideps)) \<Longrightarrow>
   fst (install_loop_pkg os all_deps n ideps lg s) = Inr ()"
proof (induction ideps arbitrary: s)
  case Nil
  show ?case by simp
next
  case (Cons a ideps)
  obtain i dep where a: "a = (i, dep)" by (cases a)
  show ?case
  proof (cases "map_of all_deps dep")
    case None
    with a Cons show ?thesis by (simp add: resolved_Cons)
  next
    case (Some dc)
    let ?s1 = "logger_info os lg (''['' @ str_nat i @ ''/'' @ str_nat n @ '']'') s"
    from a Some Cons.prems have dc: "dep_complete dc"
      and rest: "list_all dep_complete (resolved all_deps (map snd ideps))"
      by (simp_all add: resolved_Cons)
    from install_dependency_returns_pkg [OF dc, of os dep lg ?s1]
    obtain b where "fst (install_dependency_pkg os dep dc lg ?s1) = Inr b" ..
    then obtain s2 where "install_dependency_pkg os dep dc lg ?s1 = (Inr b, s2)"
      by (cases "install_dependency_pkg os dep dc lg ?s1") simp
    with a Some Cons.IH [OF rest] show ?thesis by (simp add: Let_def)
  qed
qed

lemma made_parents_install_listed_pkg:
  "fst (install_listed_pkg os deps config lg s) = Inr u \<Longrightarrow>
   made_parents (trace (snd (install_listed_pkg os deps config lg s))) =
     made_parents (trace s) @ lib_parents LIBS_DIR_pkg (resolved (dependencies config) deps)"
proof (cases "deps = []")
  case True
  then show ?thesis by (simp add: install_listed_pkg_def lib_parents_def)
next
  case False
  assume "fst (install_listed_pkg os deps config lg s) = Inr u"
  with False show ?thesis
    using made_parents_install_loop_pkg [of os "dependencies config" "length deps"
        "zip [1..<Suc (length deps)] deps"
        lg "logger_info os lg (''Step 2: Installing '' @ str_nat (length deps) @ '' dependencies'') s" u]
    by (simp add: install_listed_pkg_def Let_def del: upt_Suc)
qed

lemma install_listed_returns_pkg:
  "list_all dep_complete (resolved (dependencies config) deps) \<Longrightarrow>
   fst (install_listed_pkg os deps config lg s) = Inr ()"
  using install_loop_returns_pkg [of "dependencies config" "zip [1..<Suc (length deps)] deps" os "length deps" lg]
  by (simp add: install_listed_pkg_def Let_def del: upt_Suc)

lemma commands_manifest_loop_pkg:
  "commands (trace (manifest_loop_pkg os project_path raws lg s)) =
     commands (trace s) @ map (\<lambda>l. (l, Some project_path, False)) (runnable raws)"
  by (induction raws arbitrary: s) (simp_all add: runnable_def Let_def)

lemma commands_run_manifest_pkg:
  "commands (trace (run_manifest_pkg os project_path lg s)) =
     commands (trace s) @
       (if path_exists os (Join project_path ''repo_specific_packages.txt'') (world s)
        then map (\<lambda>l. (l, Some project_path, False))
               (runnable (file_lines os (Join project_path ''repo_specific_packages.txt'')
                  (world (perform os (OpenRead (Join project_path ''repo_specific_packages.txt''))
                     (logger_info os lg ''Step 3: Running project-specific commands'' s)))))
        else [])"
  by (simp add: run_manifest_pkg_def Let_def commands_manifest_loop_pkg)

lemma commands_announce_pkg [simp]: "commands (trace (announce_pkg os name lg s)) = commands (trace s)"
  by (simp add: announce_pkg_def)

lemma commands_conclude_pkg [simp]: "commands (trace (conclude_pkg os name lg s)) = commands (trace s)"
  by (simp add: conclude_pkg_def)

lemma deploy_project_unknown_pkg:
  "map_of (projects config) name = None \<Longrightarrow>
   deploy_project_pkg os name config lg s =
     (Inr False,
      logger_error os lg (''Project '' @ CHR 0x27 # name @ CHR 0x27 # '' not found in config'') s)"
  by (simp add: deploy_project_pkg_def)

lemma deploy_project_no_url_pkg:
  "map_of (projects config) name = Some pc \<Longrightarrow> project_url pc = None \<Longrightarrow>
   deploy_project_pkg os name config lg s = (Inl (KeyError ''url''), announce_pkg os name lg s)"
  by (simp add: deploy_project_pkg_def Let_def)

lemma deploy_project_sync_failed_pkg:
  "map_of (projects config) name = Some pc \<Longrightarrow> project_url pc = Some url \<Longrightarrow>
   \<not> fst (project_sync_pkg os name url (branch_or_main (project_branch pc)) lg s) \<Longrightarrow>
   deploy_project_pkg os name config lg s =
     (Inr False, snd (project_sync_pkg os name url (branch_or_main (project_branch pc)) lg s))"
  by (simp add: deploy_project_pkg_def project_sync_pkg_def before_sync_pkg_def branch_or_main_def
        Let_def split_def)

lemma deploy_project_synced_pkg:
  "map_of (projects config) name = Some pc \<Longrightarrow> project_url pc = Some url \<Longrightarrow>
   fst (project_sync_pkg os name url (branch_or_main (project_branch pc)) lg s) \<Longrightarrow>
   deploy_project_pkg os name config lg s =
     (case install_listed_pkg os (deps_or_empty (project_dependencies pc)) config lg
             (snd (project_sync_pkg os name url (branch_or_main (project_branch pc)) lg s)) of
        (Inl e, s5) \<Rightarrow> (Inl e, s5)
      | (Inr u, s5) \<Rightarrow>
          (Inr True, conclude_pkg os name lg (run_manifest_pkg os (Join ROOT_DIR name) lg s5)))"
  by (simp add: deploy_project_pkg_def project_sync_pkg_def before_sync_pkg_def branch_or_main_def
        deps_or_empty_def Let_def split_def)

subsection \<open>Missing keys\<close>

text \<open>
  Claim C10. Nothing checks the required keys. A configured project whose record has no
  \<^verbatim>\<open>url\<close> makes \<open>deploy_project\<close> raise \<^verbatim>\<open>KeyError('url')\<close>; a dependency record
  without \<^verbatim>\<open>url\<close>, or with \<^verbatim>\<open>url\<close> and without \<^verbatim>\<open>path\<close>, makes
  \<open>install_dependency\<close> raise \<^verbatim>\<open>KeyError\<close> for that key. No boolean is returned.
  Both copies.
\<close>

theorem missing_key_raises:
  "(map_of (projects config) name = Some pc \<and> project_url pc = None \<longrightarrow>
      fst (deploy_project os name config s) = Inl (KeyError ''url'') \<and>
      fst (deploy_project_pkg os name config lg s) = Inl (KeyError ''url''))
   \<and> (dependency_url dc = None \<longrightarrow>
      fst (install_dependency os dep dc s) = Inl (KeyError ''url'') \<and>
      fst (install_dependency_pkg os dep dc lg s) = Inl (KeyError ''url''))
   \<and> (dependency_url dc \<noteq> None \<and> dependency_path dc = None \<longrightarrow>
      fst (install_dependency os dep dc s) = Inl (KeyError ''path'') \<and>
      fst (install_dependency_pkg os dep dc lg s) = Inl (KeyError ''path''))"
  by (auto simp add: deploy_project_no_url deploy_project_no_url_pkg
        install_dependency_no_url install_dependency_no_url_pkg
        install_dependency_no_path install_dependency_no_path_pkg)

theorem missing_key_raises_witness:
  "fst (deploy_project (demo_os [] [] broken_config) ''bare'' broken_config (start []))
     = Inl (KeyError ''url'')
   \<and> fst (deploy_project_pkg (demo_os [] [] broken_config) ''bare'' broken_config demo_logger
          (start [])) = Inl (KeyError ''url'')
   \<and> fst (install_dependency (demo_os [] [] demo_config) ''libx''
          (demo_libx\<lparr>dependency_url := None\<rparr>) (start [])) = Inl (KeyError ''url'')
   \<and> fst (install_dependency_pkg (demo_os [] [] demo_config) ''libx''
          (demo_libx\<lparr>dependency_path := None\<rparr>) demo_logger (start [])) = Inl (KeyError ''path'')"
  using missing_key_raises [of broken_config "''bare''" bare_project
      "demo_os [] [] broken_config" "start []" demo_logger]
    missing_key_raises [of broken_config "''bare''" bare_project "demo_os [] [] demo_config" "start []"
      demo_logger "demo_libx\<lparr>dependency_url := None\<rparr>" "''libx''"]
    missing_key_raises [of broken_config "''bare''" bare_project "demo_os [] [] demo_config" "start []"
      demo_logger "demo_libx\<lparr>dependency_path := None\<rparr>" "''libx''"]
  by (simp add: broken_config_def bare_project_def demo_libx_def)

lemmas demo_simps =
  demo_os_def start_def demo_logger_def demo_config_def demo_libx_def demo_liby_def demo_app_def
  demo_web_def broken_config_def bare_project_def app_manifest_def demo_lines_def deployed_def
  calm_os_def flaky_os_def offline_os_def
  LIBS_DIR_def REPOS_DIR_def LOG_DIR_def CONFIG_FILE_def ROOT_DIR_def LIBS_DIR_pkg_def LOG_DIR_pkg_def
  branch_or_main_def deps_or_empty_def

lemma commands_afterI:
  "commands (trace s') = commands (trace s) @ cs \<Longrightarrow> commands_after s s' = cs"
  by (simp add: commands_after_def)

subsection \<open>The dependency installer\<close>

text \<open>
  Claim C5. Take a dependency record with \<^verbatim>\<open>url\<close> and \<^verbatim>\<open>path\<close> whose sync succeeded.
  The installer returns \<^verbatim>\<open>True\<close>, and the commands it runs after the sync are the
  requirements install, present if and only if the record's \<^verbatim>\<open>requirements\<close> flag is
  true and \<^verbatim>\<open>requirements.txt\<close> exists in the target directory in the state the sync
  left, followed by the editable install. When the flag is false or absent, or the file
  is missing, only the editable install is run and the result is still \<^verbatim>\<open>True\<close>. Both
  copies.
\<close>

theorem requirements_install_iff:
  assumes "dependency_url dc = Some url" and "dependency_path dc = Some path"
  shows
  "(fst (dependency_sync os dep url (branch_or_main (dependency_branch dc)) path s) \<longrightarrow>
      fst (install_dependency os dep dc s) = Inr True \<and>
      commands_after (snd (dependency_sync os dep url (branch_or_main (dependency_branch dc)) path s))
          (snd (install_dependency os dep dc s)) =
        (if dependency_requirements dc = Some True \<and>
            path_exists os (Join (Join LIBS_DIR path) ''requirements.txt'')
              (world (snd (dependency_sync os dep url (branch_or_main (dependency_branch dc)) path s)))
         then [requirements_install os (Join LIBS_DIR path)] else [])
        @ [editable_install os (Join LIBS_DIR path)] \<and>
      (requirements_install os (Join LIBS_DIR path) \<in> set (commands_after
          (snd (dependency_sync os dep url (branch_or_main (dependency_branch dc)) path s))
          (snd (install_dependency os dep dc s)))
       \<longleftrightarrow> dependency_requirements dc = Some True \<and>
            path_exists os (Join (Join LIBS_DIR path) ''requirements.txt'')
              (world (snd (dependency_sync os dep url (branch_or_main (dependency_branch dc)) path s)))))
   \<and>
   (fst (dependency_sync_pkg os dep url (branch_or_main (dependency_branch dc)) path lg s) \<longrightarrow>
      fst (install_dependency_pkg os dep dc lg s) = Inr True \<and>
      commands_after (snd (dependency_sync_pkg os dep url (branch_or_main (dependency_branch dc)) path lg s))
          (snd (install_dependency_pkg os dep dc lg s)) =
        (if dependency_requirements dc = Some True \<and>
            path_exists os (Join (Join LIBS_DIR_pkg path) ''requirements.txt'')
              (world (snd (dependency_sync_pkg os dep url (branch_or_main (dependency_branch dc)) path lg s)))
         then [requirements_install os (Join LIBS_DIR_pkg path)] else [])
        @ [editable_install os (Join LIBS_DIR_pkg path)] \<and>
      (requirements_install os (Join LIBS_DIR_pkg path) \<in> set (commands_after
          (snd (dependency_sync_pkg os dep url (branch_or_main (dependency_branch dc)) path lg s))
          (snd (install_dependency_pkg os dep dc lg s)))
       \<longleftrightarrow> dependency_requirements dc = Some True \<and>
            path_exists os (Join (Join LIBS_DIR_pkg path) ''requirements.txt'')
              (world (snd (dependency_sync_pkg os dep url (branch_or_main (dependency_branch dc)) path lg s)))))"
proof (intro conjI impI)
  assume ok: "fst (dependency_sync os dep url (branch_or_main (dependency_branch dc)) path s)"
  note a = install_dependency_synced [OF assms ok]
  from a show "fst (install_dependency os dep dc s) = Inr True" by simp
  from a have c: "commands_after (snd (dependency_sync os dep url (branch_or_main (dependency_branch dc)) path s))
          (snd (install_dependency os dep dc s)) =
        (if dependency_requirements dc = Some True \<and>
            path_exists os (Join (Join LIBS_DIR path) ''requirements.txt'')
              (world (snd (dependency_sync os dep url (branch_or_main (dependency_branch dc)) path s)))
         then [requirements_install os (Join LIBS_DIR path)] else [])
        @ [editable_install os (Join LIBS_DIR path)]"
    by (intro commands_afterI) (simp add: requirements_install_def editable_install_def)
  then show "commands_after (snd (dependency_sync os dep url (branch_or_main (dependency_branch dc)) path s))
          (snd (install_dependency os dep dc s)) =
        (if dependency_requirements dc = Some True \<and>
            path_exists os (Join (Join LIBS_DIR path) ''requirements.txt'')
              (world (snd (dependency_sync os dep url (branch_or_main (dependency_branch dc)) path s)))
         then [requirements_install os (Join LIBS_DIR path)] else [])
        @ [editable_install os (Join LIBS_DIR path)]" .
  from c show "requirements_install os (Join LIBS_DIR path) \<in> set (commands_after
          (snd (dependency_sync os dep url (branch_or_main (dependency_branch dc)) path s))
          (snd (install_dependency os dep dc s)))
       \<longleftrightarrow> dependency_requirements dc = Some True \<and>
            path_exists os (Join (Join LIBS_DIR path) ''requirements.txt'')
              (world (snd (dependency_sync os dep url (branch_or_main (dependency_branch dc)) path s)))"
    by (simp add: requirements_install_def editable_install_def)
next
  assume ok: "fst (dependency_sync_pkg os dep url (branch_or_main (dependency_branch dc)) path lg s)"
  note a = install_dependency_synced_pkg [OF assms ok]
  from a show "fst (install_dependency_pkg os dep dc lg s) = Inr True" by simp
  from a have c: "commands_after (snd (dependency_sync_pkg os dep url (branch_or_main (dependency_branch dc)) path lg s))
          (snd (install_dependency_pkg os dep dc lg s)) =
        (if dependency_requirements dc = Some True \<and>
            path_exists os (Join (Join LIBS_DIR_pkg path) ''requirements.txt'')
              (world (snd (dependency_sync_pkg os dep url (branch_or_main (dependency_branch dc)) path lg s)))
         then [requirements_install os (Join LIBS_DIR_pkg path)] else [])
        @ [editable_install os (Join LIBS_DIR_pkg path)]"
    by (intro commands_afterI) (simp add: requirements_install_def editable_install_def)
  then show "commands_after (snd (dependency_sync_pkg os dep url (branch_or_main (dependency_branch dc)) path lg s))
          (snd (install_dependency_pkg os dep dc lg s)) =
        (if dependency_requirements dc = Some True \<and>
            path_exists os (Join (Join LIBS_DIR_pkg path) ''requirements.txt'')
              (world (snd (dependency_sync_pkg os dep url (branch_or_main (dependency_branch dc)) path lg s)))
         then [requirements_install os (Join LIBS_DIR_pkg path)] else [])
        @ [editable_install os (Join LIBS_DIR_pkg path)]" .
  from c show "requirements_install os (Join LIBS_DIR_pkg path) \<in> set (commands_after
          (snd (dependency_sync_pkg os dep url (branch_or_main (dependency_branch dc)) path lg s))
          (snd (install_dependency_pkg os dep dc lg s)))
       \<longleftrightarrow> dependency_requirements dc = Some True \<and>
            path_exists os (Join (Join LIBS_DIR_pkg path) ''requirements.txt'')
              (world (snd (dependency_sync_pkg os dep url (branch_or_main (dependency_branch dc)) path lg s)))"
    by (simp add: requirements_install_def editable_install_def)
qed


theorem requirements_install_iff_witness:
  "fst (dependency_sync (demo_os [] [] demo_config) ''libx'' ''https://example/libx.git'' ''main'' ''libx''
      (start [Join LIBS_DIR ''libx'', Join (Join LIBS_DIR ''libx'') ''requirements.txt'']))
   \<and> fst (install_dependency (demo_os [] [] demo_config) ''libx'' demo_libx
      (start [Join LIBS_DIR ''libx'', Join (Join LIBS_DIR ''libx'') ''requirements.txt''])) = Inr True
   \<and> commands_after
        (snd (dependency_sync (demo_os [] [] demo_config) ''libx'' ''https://example/libx.git'' ''main'' ''libx''
           (start [Join LIBS_DIR ''libx'', Join (Join LIBS_DIR ''libx'') ''requirements.txt''])))
        (snd (install_dependency (demo_os [] [] demo_config) ''libx'' demo_libx
           (start [Join LIBS_DIR ''libx'', Join (Join LIBS_DIR ''libx'') ''requirements.txt'']))) =
      [(''pip install -r /opt/orchestrator/libs/libx/requirements.txt'', None, True),
       (''pip install -e /opt/orchestrator/libs/libx'', None, True)]
   \<and> commands_after
        (snd (dependency_sync (demo_os [] [] demo_config) ''libx'' ''https://example/libx.git'' ''main'' ''libx''
           (start [Join LIBS_DIR ''libx''])))
        (snd (install_dependency (demo_os [] [] demo_config) ''libx'' demo_libx
           (start [Join LIBS_DIR ''libx'']))) =
      [(''pip install -e /opt/orchestrator/libs/libx'', None, True)]
   \<and> commands_after
        (snd (dependency_sync_pkg (demo_os [] [] demo_config) ''liby'' ''https://example/liby.git'' ''dev''
           ''vendor/liby'' demo_logger
           (start [Join (Join LIBS_DIR_pkg ''vendor/liby'') ''requirements.txt''])))
        (snd (install_dependency_pkg (demo_os [] [] demo_config) ''liby'' demo_liby demo_logger
           (start [Join (Join LIBS_DIR_pkg ''vendor/liby'') ''requirements.txt'']))) =
      [(''pip install -e /opt/orchestrator/../libs/vendor/liby'', None, True)]"
  using requirements_install_iff [of demo_libx "''https://example/libx.git''" "''libx''"
      "demo_os [] [] demo_config" "''libx''"
      "start [Join LIBS_DIR ''libx'', Join (Join LIBS_DIR ''libx'') ''requirements.txt'']"]
    requirements_install_iff [of demo_libx "''https://example/libx.git''" "''libx''"
      "demo_os [] [] demo_config" "''libx''" "start [Join LIBS_DIR ''libx'']"]
    requirements_install_iff [of demo_liby "''https://example/liby.git''" "''vendor/liby''"
      "demo_os [] [] demo_config" "''liby''"
      "start [Join (Join LIBS_DIR_pkg ''vendor/liby'') ''requirements.txt'']" demo_logger]
  by (simp add: demo_simps dependency_sync_def dependency_sync_pkg_def clone_or_update_def
        clone_or_update_pkg_def log_def logger_info_def logger_log_def run_cmd_def perform_def
        requirements_install_def editable_install_def Let_def)

lemmas run_simps =
  dependency_sync_def dependency_sync_pkg_def project_sync_def project_sync_pkg_def
  before_sync_def before_sync_pkg_def announce_def announce_pkg_def conclude_def conclude_pkg_def
  install_dependency_def install_dependency_pkg_def install_listed_def install_listed_pkg_def
  run_manifest_def run_manifest_pkg_def deploy_project_def deploy_project_pkg_def
  clone_or_update_def clone_or_update_pkg_def log_def logger_info_def logger_error_def
  logger_log_def run_cmd_def perform_def Let_def

text \<open>
  Claim C6. When the sync of a dependency fails, \<open>install_dependency\<close> returns
  \<^verbatim>\<open>False\<close> in the state the sync left: the one command it has run is the pull or the
  clone, neither install is attempted. The loop of \<open>deploy_project\<close> over the listed
  dependencies then goes on with the rest of the list from that state. Both copies.
\<close>

theorem failed_sync_skips_rest:
  assumes "dependency_url dc = Some url" and "dependency_path dc = Some path"
  shows
  "(\<not> fst (dependency_sync os dep url (branch_or_main (dependency_branch dc)) path s) \<longrightarrow>
      install_dependency os dep dc s =
        (Inr False, snd (dependency_sync os dep url (branch_or_main (dependency_branch dc)) path s)) \<and>
      (commands_after s (snd (install_dependency os dep dc s)) =
         [pull_command (branch_or_main (dependency_branch dc)) (Join LIBS_DIR path)] \<or>
       commands_after s (snd (install_dependency os dep dc s)) =
         [clone_command os (branch_or_main (dependency_branch dc)) url (Join LIBS_DIR path)]))
   \<and>
   (map_of all_deps dep = Some dc \<and>
    \<not> fst (dependency_sync os dep url (branch_or_main (dependency_branch dc)) path
            (perform os (Stdout (CHR 0x0A # ''['' @ str_nat i @ ''/'' @ str_nat n @ '']'')) s)) \<longrightarrow>
      install_loop os all_deps n ((i, dep) # rest) s =
        install_loop os all_deps n rest
          (snd (dependency_sync os dep url (branch_or_main (dependency_branch dc)) path
                  (perform os (Stdout (CHR 0x0A # ''['' @ str_nat i @ ''/'' @ str_nat n @ '']'')) s))))
   \<and>
   (\<not> fst (dependency_sync_pkg os dep url (branch_or_main (dependency_branch dc)) path lg s) \<longrightarrow>
      install_dependency_pkg os dep dc lg s =
        (Inr False, snd (dependency_sync_pkg os dep url (branch_or_main (dependency_branch dc)) path lg s)) \<and>
      (commands_after s (snd (install_dependency_pkg os dep dc lg s)) =
         [pull_command (branch_or_main (dependency_branch dc)) (Join LIBS_DIR_pkg path)] \<or>
       commands_after s (snd (install_dependency_pkg os dep dc lg s)) =
         [clone_command os (branch_or_main (dependency_branch dc)) url (Join LIBS_DIR_pkg path)]))
   \<and>
   (map_of all_deps dep = Some dc \<and>
    \<not> fst (dependency_sync_pkg os dep url (branch_or_main (dependency_branch dc)) path lg
            (logger_info os lg (''['' @ str_nat i @ ''/'' @ str_nat n @ '']'') s)) \<longrightarrow>
      install_loop_pkg os all_deps n ((i, dep) # rest) lg s =
        install_loop_pkg os all_deps n rest lg
          (snd (dependency_sync_pkg os dep url (branch_or_main (dependency_branch dc)) path lg
                  (logger_info os lg (''['' @ str_nat i @ ''/'' @ str_nat n @ '']'') s))))"
proof (intro conjI impI)
  assume f: "\<not> fst (dependency_sync os dep url (branch_or_main (dependency_branch dc)) path s)"
  from install_dependency_sync_failed [OF assms f]
  show r: "install_dependency os dep dc s =
        (Inr False, snd (dependency_sync os dep url (branch_or_main (dependency_branch dc)) path s))" .
  show "commands_after s (snd (install_dependency os dep dc s)) =
         [pull_command (branch_or_main (dependency_branch dc)) (Join LIBS_DIR path)] \<or>
       commands_after s (snd (install_dependency os dep dc s)) =
         [clone_command os (branch_or_main (dependency_branch dc)) url (Join LIBS_DIR path)]"
    by (simp add: r commands_after_def commands_dependency_sync pull_command_def clone_command_def)
next
  assume "map_of all_deps dep = Some dc \<and>
    \<not> fst (dependency_sync os dep url (branch_or_main (dependency_branch dc)) path
            (perform os (Stdout (CHR 0x0A # ''['' @ str_nat i @ ''/'' @ str_nat n @ '']'')) s))"
  then show "install_loop os all_deps n ((i, dep) # rest) s =
        install_loop os all_deps n rest
          (snd (dependency_sync os dep url (branch_or_main (dependency_branch dc)) path
                  (perform os (Stdout (CHR 0x0A # ''['' @ str_nat i @ ''/'' @ str_nat n @ '']'')) s)))"
    using install_dependency_sync_failed [OF assms, of os dep
        "perform os (Stdout (CHR 0x0A # ''['' @ str_nat i @ ''/'' @ str_nat n @ '']'')) s"]
    by (simp add: Let_def)
next
  assume f: "\<not> fst (dependency_sync_pkg os dep url (branch_or_main (dependency_branch dc)) path lg s)"
  from install_dependency_sync_failed_pkg [OF assms f]
  show r: "install_dependency_pkg os dep dc lg s =
        (Inr False, snd (dependency_sync_pkg os dep url (branch_or_main (dependency_branch dc)) path lg s))" .
  show "commands_after s (snd (install_dependency_pkg os dep dc lg s)) =
         [pull_command (branch_or_main (dependency_branch dc)) (Join LIBS_DIR_pkg path)] \<or>
       commands_after s (snd (install_dependency_pkg os dep dc lg s)) =
         [clone_command os (branch_or_main (dependency_branch dc)) url (Join LIBS_DIR_pkg path)]"
    by (simp add: r commands_after_def commands_dependency_sync_pkg pull_command_def clone_command_def)
next
  assume "map_of all_deps dep = Some dc \<and>
    \<not> fst (dependency_sync_pkg os dep url (branch_or_main (dependency_branch dc)) path lg
            (logger_info os lg (''['' @ str_nat i @ ''/'' @ str_nat n @ '']'') s))"
  then show "install_loop_pkg os all_deps n ((i, dep) # rest) lg s =
        install_loop_pkg os all_deps n rest lg
          (snd (dependency_sync_pkg os dep url (branch_or_main (dependency_branch dc)) path lg
                  (logger_info os lg (''['' @ str_nat i @ ''/'' @ str_nat n @ '']'') s)))"
    using install_dependency_sync_failed_pkg [OF assms, of os dep lg
        "logger_info os lg (''['' @ str_nat i @ ''/'' @ str_nat n @ '']'') s"]
    by (simp add: Let_def)
qed

theorem failed_sync_skips_rest_witness:
  "\<not> fst (dependency_sync
        (demo_os [''git clone -b main https://example/libx.git /opt/orchestrator/libs/libx''] [] demo_config)
        ''libx'' ''https://example/libx.git'' ''main'' ''libx'' (start []))
   \<and> fst (install_dependency
        (demo_os [''git clone -b main https://example/libx.git /opt/orchestrator/libs/libx''] [] demo_config)
        ''libx'' demo_libx (start [])) = Inr False
   \<and> commands (trace (snd (install_dependency
        (demo_os [''git clone -b main https://example/libx.git /opt/orchestrator/libs/libx''] [] demo_config)
        ''libx'' demo_libx (start [])))) =
      [(''git clone -b main https://example/libx.git /opt/orchestrator/libs/libx'', None, False)]
   \<and> commands (trace (snd (install_loop
        (demo_os [''git clone -b main https://example/libx.git /opt/orchestrator/libs/libx''] [] demo_config)
        (dependencies demo_config) 2 [(1, ''libx''), (2, ''liby'')] (start [])))) =
      [(''git clone -b main https://example/libx.git /opt/orchestrator/libs/libx'', None, False),
       (''git clone -b dev https://example/liby.git /opt/orchestrator/libs/vendor/liby'', None, False),
       (''pip install -e /opt/orchestrator/libs/vendor/liby'', None, True)]"
  using failed_sync_skips_rest [of demo_libx "''https://example/libx.git''" "''libx''"
      "demo_os [''git clone -b main https://example/libx.git /opt/orchestrator/libs/libx''] [] demo_config"
      "''libx''" "start []" "dependencies demo_config" 1 2 "[(2, ''liby'')]"]
  by (simp add: demo_simps run_simps)

subsection \<open>The project deployer\<close>

text \<open>
  Claim C7. A listed name that the dependency mapping does not have changes nothing: the
  loop over the list goes to the next name in the same state, so that running the list is
  running the list without those names. No installer call is made for it and nothing is
  reported. The names that resolve are installed in the order of the list: when the loop
  ends without an exception, the directories created by the installer calls are those of
  the resolved records, in that order. Both copies.
\<close>

theorem unresolved_names_skipped:
  "(map_of all_deps dep = None \<longrightarrow>
      install_loop os all_deps n ((i, dep) # rest) s = install_loop os all_deps n rest s \<and>
      install_loop_pkg os all_deps n ((i, dep) # rest) lg s = install_loop_pkg os all_deps n rest lg s)
   \<and> install_loop os all_deps n ideps s =
       install_loop os all_deps n (filter (\<lambda>(i, dep). map_of all_deps dep \<noteq> None) ideps) s
   \<and> install_loop_pkg os all_deps n ideps lg s =
       install_loop_pkg os all_deps n (filter (\<lambda>(i, dep). map_of all_deps dep \<noteq> None) ideps) lg s
   \<and> (fst (install_listed os deps config s) = Inr () \<longrightarrow>
        made_parents (trace (snd (install_listed os deps config s))) =
          made_parents (trace s) @ lib_parents LIBS_DIR (resolved (dependencies config) deps))
   \<and> (fst (install_listed_pkg os deps config lg s) = Inr () \<longrightarrow>
        made_parents (trace (snd (install_listed_pkg os deps config lg s))) =
          made_parents (trace s) @ lib_parents LIBS_DIR_pkg (resolved (dependencies config) deps))"
  using install_loop_skips [of os all_deps n ideps s]
    install_loop_skips_pkg [of os all_deps n ideps lg s]
    made_parents_install_listed [of os deps config s "()"]
    made_parents_install_listed_pkg [of os deps config lg s "()"]
  by simp

theorem unresolved_names_skipped_witness:
  "map_of (dependencies demo_config) ''ghost'' = None
   \<and> fst (install_listed (demo_os [] [] demo_config) [''ghost'', ''libx'', ''liby''] demo_config
        (start [])) = Inr ()
   \<and> made_parents (trace (snd (install_listed (demo_os [] [] demo_config)
        [''ghost'', ''libx'', ''liby''] demo_config (start [])))) =
      [Parent (Join LIBS_DIR ''libx''), Parent (Join LIBS_DIR ''vendor/liby'')]
   \<and> commands (trace (snd (install_loop (demo_os [] [] demo_config) (dependencies demo_config) 2
        [(1, ''ghost''), (2, ''liby'')] (start [])))) =
      [(''git clone -b dev https://example/liby.git /opt/orchestrator/libs/vendor/liby'', None, False),
       (''pip install -e /opt/orchestrator/libs/vendor/liby'', None, True)]"
  using unresolved_names_skipped [of "dependencies demo_config" "''ghost''" "demo_os [] [] demo_config"
      2 1 "[(2, ''liby'')]" "start []" demo_logger "[(1, ''ghost''), (2, ''liby'')]"
      "[''ghost'', ''libx'', ''liby'']" demo_config]
  by (simp add: demo_simps run_simps)

lemma deploy_project_result:
  assumes "map_of (projects config) name = Some pc" and "project_url pc = Some url"
    and "fst (deploy_project os name config s) = Inr b"
  shows "b = fst (project_sync os name url (branch_or_main (project_branch pc)) s)"
proof (cases "fst (project_sync os name url (branch_or_main (project_branch pc)) s)")
  case False
  with deploy_project_sync_failed [OF assms(1,2) False] assms(3) show ?thesis by simp
next
  case True
  with deploy_project_synced [OF assms(1,2) True] assms(3) show ?thesis
    by (auto split: prod.splits sum.splits)
qed

lemma deploy_project_complete:
  assumes "map_of (projects config) name = Some pc" and "project_url pc = Some url"
    and "list_all dep_complete (resolved (dependencies config) (deps_or_empty (project_dependencies pc)))"
  shows "fst (deploy_project os name config s) =
           Inr (fst (project_sync os name url (branch_or_main (project_branch pc)) s))"
proof (cases "fst (project_sync os name url (branch_or_main (project_branch pc)) s)")
  case False
  with deploy_project_sync_failed [OF assms(1,2) False] show ?thesis by simp
next
  case True
  from install_listed_returns [OF assms(3), of os
      "snd (project_sync os name url (branch_or_main (project_branch pc)) s)"]
  obtain s5 where "install_listed os (deps_or_empty (project_dependencies pc)) config
      (snd (project_sync os name url (branch_or_main (project_branch pc)) s)) = (Inr (), s5)"
    by (cases "install_listed os (deps_or_empty (project_dependencies pc)) config
      (snd (project_sync os name url (branch_or_main (project_branch pc)) s))") simp
  with deploy_project_synced [OF assms(1,2) True] True show ?thesis by simp
qed

lemma deploy_project_result_pkg:
  assumes "map_of (projects config) name = Some pc" and "project_url pc = Some url"
    and "fst (deploy_project_pkg os name config lg s) = Inr b"
  shows "b = fst (project_sync_pkg os name url (branch_or_main (project_branch pc)) lg s)"
proof (cases "fst (project_sync_pkg os name url (branch_or_main (project_branch pc)) lg s)")
  case False
  with deploy_project_sync_failed_pkg [OF assms(1,2) False] assms(3) show ?thesis by simp
next
  case True
  with deploy_project_synced_pkg [OF assms(1,2) True] assms(3) show ?thesis
    by (auto split: prod.splits sum.splits)
qed

lemma deploy_project_complete_pkg:
  assumes "map_of (projects config) name = Some pc" and "project_url pc = Some url"
    and "list_all dep_complete (resolved (dependencies config) (deps_or_empty (project_dependencies pc)))"
  shows "fst (deploy_project_pkg os name config lg s) =
           Inr (fst (project_sync_pkg os name url (branch_or_main (project_branch pc)) lg s))"
proof (cases "fst (project_sync_pkg os name url (branch_or_main (project_branch pc)) lg s)")
  case False
  with deploy_project_sync_failed_pkg [OF assms(1,2) False] show ?thesis by simp
next
  case True
  from install_listed_returns_pkg [OF assms(3), of os lg
      "snd (project_sync_pkg os name url (branch_or_main (project_branch pc)) lg s)"]
  obtain s5 where "install_listed_pkg os (deps_or_empty (project_dependencies pc)) config lg
      (snd (project_sync_pkg os name url (branch_or_main (project_branch pc)) lg s)) = (Inr (), s5)"
    by (cases "install_listed_pkg os (deps_or_empty (project_dependencies pc)) config lg
      (snd (project_sync_pkg os name url (branch_or_main (project_branch pc)) lg s))") simp
  with deploy_project_synced_pkg [OF assms(1,2) True] True show ?thesis by simp
qed

lemmas string_simps = strip_def isspace_def startswith_def runnable_def

text \<open>
  Claim C4. For a configured project whose record has a \<^verbatim>\<open>url\<close>: when the sync of the
  project's repository fails, \<open>deploy_project\<close> returns \<^verbatim>\<open>False\<close> in the state the
  sync left, so no later step has run; whenever it returns a boolean, that boolean is the
  result of the sync; and when the records the listed names resolve to have their required
  keys it does return one, whatever the installs and the manifest commands return. Both
  copies.
\<close>

theorem deploy_result_is_sync_result:
  assumes "map_of (projects config) name = Some pc" and "project_url pc = Some url"
  shows
  "(\<not> fst (project_sync os name url (branch_or_main (project_branch pc)) s) \<longrightarrow>
      deploy_project os name config s =
        (Inr False, snd (project_sync os name url (branch_or_main (project_branch pc)) s)))
   \<and> (fst (deploy_project os name config s) = Inr b \<longrightarrow>
      b = fst (project_sync os name url (branch_or_main (project_branch pc)) s))
   \<and> (list_all dep_complete
         (resolved (dependencies config) (deps_or_empty (project_dependencies pc))) \<longrightarrow>
      fst (deploy_project os name config s) =
        Inr (fst (project_sync os name url (branch_or_main (project_branch pc)) s)))
   \<and> (\<not> fst (project_sync_pkg os name url (branch_or_main (project_branch pc)) lg s) \<longrightarrow>
      deploy_project_pkg os name config lg s =
        (Inr False, snd (project_sync_pkg os name url (branch_or_main (project_branch pc)) lg s)))
   \<and> (fst (deploy_project_pkg os name config lg s) = Inr b \<longrightarrow>
      b = fst (project_sync_pkg os name url (branch_or_main (project_branch pc)) lg s))
   \<and> (list_all dep_complete
         (resolved (dependencies config) (deps_or_empty (project_dependencies pc))) \<longrightarrow>
      fst (deploy_project_pkg os name config lg s) =
        Inr (fst (project_sync_pkg os name url (branch_or_main (project_branch pc)) lg s)))"
  using deploy_project_sync_failed [OF assms, of os s]
    deploy_project_result [OF assms, of os s b]
    deploy_project_complete [OF assms, of os s]
    deploy_project_sync_failed_pkg [OF assms, of os lg s]
    deploy_project_result_pkg [OF assms, of os lg s b]
    deploy_project_complete_pkg [OF assms, of os lg s]
  by blast


theorem deploy_result_is_sync_result_witness:
  "fst (project_sync flaky_os ''app'' ''https://example/app.git'' ''main'' (start deployed))
   \<and> fst (deploy_project flaky_os ''app'' demo_config (start deployed)) = Inr True
   \<and> commands (trace (snd (deploy_project flaky_os ''app'' demo_config (start deployed)))) =
      [(''git pull origin main'', Some (Join REPOS_DIR ''app''), False),
       (''git clone -b main https://example/libx.git /opt/orchestrator/libs/libx'', None, False),
       (''pip install -e /opt/orchestrator/libs/libx'', None, True),
       (''make build'', Some (Join REPOS_DIR ''app''), False),
       (''false'', Some (Join REPOS_DIR ''app''), False)]
   \<and> returncode flaky_os ''pip install -e /opt/orchestrator/libs/libx'' None True deployed = 1
   \<and> returncode flaky_os ''false'' (Some (Join REPOS_DIR ''app'')) False deployed = 1
   \<and> \<not> fst (project_sync offline_os ''app'' ''https://example/app.git'' ''main'' (start deployed))
   \<and> fst (deploy_project offline_os ''app'' demo_config (start deployed)) = Inr False
   \<and> commands (trace (snd (deploy_project offline_os ''app'' demo_config (start deployed)))) =
      [(''git pull origin main'', Some (Join REPOS_DIR ''app''), False)]"
  using deploy_result_is_sync_result [of demo_config "''app''" demo_app "''https://example/app.git''"
      flaky_os "start deployed" True demo_logger]
    deploy_result_is_sync_result [of demo_config "''app''" demo_app "''https://example/app.git''"
      offline_os "start deployed" False demo_logger]
  by (simp add: demo_simps run_simps string_simps)

lemma deploy_project_commands:
  assumes "map_of (projects config) name = Some pc" and "project_url pc = Some url"
    and "fst (project_sync os name url (branch_or_main (project_branch pc)) s)"
    and "fst (install_listed os (deps_or_empty (project_dependencies pc)) config
           (snd (project_sync os name url (branch_or_main (project_branch pc)) s))) = Inr ()"
  shows "snd (deploy_project os name config s) =
     conclude os name (run_manifest os (Join REPOS_DIR name)
       (snd (install_listed os (deps_or_empty (project_dependencies pc)) config
           (snd (project_sync os name url (branch_or_main (project_branch pc)) s)))))"
  using deploy_project_synced [OF assms(1,2,3)] assms(4)
  by (cases "install_listed os (deps_or_empty (project_dependencies pc)) config
           (snd (project_sync os name url (branch_or_main (project_branch pc)) s))") simp

lemma deploy_project_commands_pkg:
  assumes "map_of (projects config) name = Some pc" and "project_url pc = Some url"
    and "fst (project_sync_pkg os name url (branch_or_main (project_branch pc)) lg s)"
    and "fst (install_listed_pkg os (deps_or_empty (project_dependencies pc)) config lg
           (snd (project_sync_pkg os name url (branch_or_main (project_branch pc)) lg s))) = Inr ()"
  shows "snd (deploy_project_pkg os name config lg s) =
     conclude_pkg os name lg (run_manifest_pkg os (Join ROOT_DIR name) lg
       (snd (install_listed_pkg os (deps_or_empty (project_dependencies pc)) config lg
           (snd (project_sync_pkg os name url (branch_or_main (project_branch pc)) lg s)))))"
  using deploy_project_synced_pkg [OF assms(1,2,3)] assms(4)
  by (cases "install_listed_pkg os (deps_or_empty (project_dependencies pc)) config lg
           (snd (project_sync_pkg os name url (branch_or_main (project_branch pc)) lg s))") simp

text \<open>
  Claim C3, as amended. Every line of the manifest is stripped of leading and trailing
  whitespace first. When the project's sync succeeded, the dependency loop ended without an
  exception and the manifest file exists at the project's root, the commands run after the
  dependency step are the stripped lines that are not empty and do not start with
  \<^verbatim>\<open>#\<close>, each once, in file order, each with the project's root as working directory.
  Both copies.
\<close>

theorem manifest_lines_run_stripped:
  assumes "map_of (projects config) name = Some pc" and "project_url pc = Some url"
  shows
  "(fst (project_sync os name url (branch_or_main (project_branch pc)) s) \<and>
    fst (install_listed os (deps_or_empty (project_dependencies pc)) config
           (snd (project_sync os name url (branch_or_main (project_branch pc)) s))) = Inr () \<and>
    path_exists os (Join (Join REPOS_DIR name) ''repo_specific_packages.txt'')
      (world (snd (install_listed os (deps_or_empty (project_dependencies pc)) config
           (snd (project_sync os name url (branch_or_main (project_branch pc)) s))))) \<longrightarrow>
    commands_after
      (snd (install_listed os (deps_or_empty (project_dependencies pc)) config
           (snd (project_sync os name url (branch_or_main (project_branch pc)) s))))
      (snd (deploy_project os name config s)) =
    map (\<lambda>l. (l, Some (Join REPOS_DIR name), False))
      (runnable (file_lines os (Join (Join REPOS_DIR name) ''repo_specific_packages.txt'')
         (world (perform os (OpenRead (Join (Join REPOS_DIR name) ''repo_specific_packages.txt''))
            (log os ''INFO'' ''Step 3: Running project-specific commands''
               (perform os (Stdout [])
                  (snd (install_listed os (deps_or_empty (project_dependencies pc)) config
                     (snd (project_sync os name url (branch_or_main (project_branch pc)) s)))))))))))
   \<and>
   (fst (project_sync_pkg os name url (branch_or_main (project_branch pc)) lg s) \<and>
    fst (install_listed_pkg os (deps_or_empty (project_dependencies pc)) config lg
           (snd (project_sync_pkg os name url (branch_or_main (project_branch pc)) lg s))) = Inr () \<and>
    path_exists os (Join (Join ROOT_DIR name) ''repo_specific_packages.txt'')
      (world (snd (install_listed_pkg os (deps_or_empty (project_dependencies pc)) config lg
           (snd (project_sync_pkg os name url (branch_or_main (project_branch pc)) lg s))))) \<longrightarrow>
    commands_after
      (snd (install_listed_pkg os (deps_or_empty (project_dependencies pc)) config lg
           (snd (project_sync_pkg os name url (branch_or_main (project_branch pc)) lg s))))
      (snd (deploy_project_pkg os name config lg s)) =
    map (\<lambda>l. (l, Some (Join ROOT_DIR name), False))
      (runnable (file_lines os (Join (Join ROOT_DIR name) ''repo_specific_packages.txt'')
         (world (perform os (OpenRead (Join (Join ROOT_DIR name) ''repo_specific_packages.txt''))
            (logger_info os lg ''Step 3: Running project-specific commands''
               (snd (install_listed_pkg os (deps_or_empty (project_dependencies pc)) config lg
                  (snd (project_sync_pkg os name url (branch_or_main (project_branch pc)) lg s))))))))))"
proof (intro conjI impI)
  assume h: "fst (project_sync os name url (branch_or_main (project_branch pc)) s) \<and>
    fst (install_listed os (deps_or_empty (project_dependencies pc)) config
           (snd (project_sync os name url (branch_or_main (project_branch pc)) s))) = Inr () \<and>
    path_exists os (Join (Join REPOS_DIR name) ''repo_specific_packages.txt'')
      (world (snd (install_listed os (deps_or_empty (project_dependencies pc)) config
           (snd (project_sync os name url (branch_or_main (project_branch pc)) s)))))"
  then have "snd (deploy_project os name config s) =
     conclude os name (run_manifest os (Join REPOS_DIR name)
       (snd (install_listed os (deps_or_empty (project_dependencies pc)) config
           (snd (project_sync os name url (branch_or_main (project_branch pc)) s)))))"
    using deploy_project_commands [OF assms, of os s] by simp
  with h show "commands_after
      (snd (install_listed os (deps_or_empty (project_dependencies pc)) config
           (snd (project_sync os name url (branch_or_main (project_branch pc)) s))))
      (snd (deploy_project os name config s)) =
    map (\<lambda>l. (l, Some (Join REPOS_DIR name), False))
      (runnable (file_lines os (Join (Join REPOS_DIR name) ''repo_specific_packages.txt'')
         (world (perform os (OpenRead (Join (Join REPOS_DIR name) ''repo_specific_packages.txt''))
            (log os ''INFO'' ''Step 3: Running project-specific commands''
               (perform os (Stdout [])
                  (snd (install_listed os (deps_or_empty (project_dependencies pc)) config
                     (snd (project_sync os name url (branch_or_main (project_branch pc)) s))))))))))"
    by (simp add: commands_after_def commands_run_manifest)
next
  assume h: "fst (project_sync_pkg os name url (branch_or_main (project_branch pc)) lg s) \<and>
    fst (install_listed_pkg os (deps_or_empty (project_dependencies pc)) config lg
           (snd (project_sync_pkg os name url (branch_or_main (project_branch pc)) lg s))) = Inr () \<and>
    path_exists os (Join (Join ROOT_DIR name) ''repo_specific_packages.txt'')
      (world (snd (install_listed_pkg os (deps_or_empty (project_dependencies pc)) config lg
           (snd (project_sync_pkg os name url (branch_or_main (project_branch pc)) lg s)))))"
  then have "snd (deploy_project_pkg os name config lg s) =
     conclude_pkg os name lg (run_manifest_pkg os (Join ROOT_DIR name) lg
       (snd (install_listed_pkg os (deps_or_empty (project_dependencies pc)) config lg
           (snd (project_sync_pkg os name url (branch_or_main (project_branch pc)) lg s)))))"
    using deploy_project_commands_pkg [OF assms, of os lg s] by simp
  with h show "commands_after
      (snd (install_listed_pkg os (deps_or_empty (project_dependencies pc)) config lg
           (snd (project_sync_pkg os name url (branch_or_main (project_branch pc)) lg s))))
      (snd (deploy_project_pkg os name config lg s)) =
    map (\<lambda>l. (l, Some (Join ROOT_DIR name), False))
      (runnable (file_lines os (Join (Join ROOT_DIR name) ''repo_specific_packages.txt'')
         (world (perform os (OpenRead (Join (Join ROOT_DIR name) ''repo_specific_packages.txt''))
            (logger_info os lg ''Step 3: Running project-specific commands''
               (snd (install_listed_pkg os (deps_or_empty (project_dependencies pc)) config lg
                  (snd (project_sync_pkg os name url (branch_or_main (project_branch pc)) lg s)))))))))"
    by (simp add: commands_after_def commands_run_manifest_pkg)
qed


theorem manifest_lines_run_stripped_witness:
  "fst (project_sync calm_os ''app'' ''https://example/app.git'' ''main'' (start deployed))
   \<and> fst (install_listed calm_os [] \<lparr>projects = [(''app'', demo_app\<lparr>project_dependencies := None\<rparr>)],
           dependencies = []\<rparr>
         (snd (project_sync calm_os ''app'' ''https://example/app.git'' ''main'' (start deployed)))) = Inr ()
   \<and> path_exists calm_os (Join (Join REPOS_DIR ''app'') ''repo_specific_packages.txt'')
         (world (snd (project_sync calm_os ''app'' ''https://example/app.git'' ''main'' (start deployed))))
   \<and> commands_after
         (snd (project_sync calm_os ''app'' ''https://example/app.git'' ''main'' (start deployed)))
         (snd (deploy_project calm_os ''app''
            \<lparr>projects = [(''app'', demo_app\<lparr>project_dependencies := None\<rparr>)], dependencies = []\<rparr>
            (start deployed))) =
       [(''make build'', Some (Join REPOS_DIR ''app''), False),
        (''false'', Some (Join REPOS_DIR ''app''), False)]"
  using manifest_lines_run_stripped [of
      "\<lparr>projects = [(''app'', demo_app\<lparr>project_dependencies := None\<rparr>)], dependencies = []\<rparr>"
      "''app''" "demo_app\<lparr>project_dependencies := None\<rparr>" "''https://example/app.git''"
      calm_os "start deployed" demo_logger]
  by (simp add: demo_simps run_simps string_simps commands_after_def)

lemma calm_run_commands:
  "commands (trace (snd (deploy_project calm_os ''app'' demo_config (start deployed)))) =
     [(''git pull origin main'', Some (Join REPOS_DIR ''app''), False),
      (''git clone -b main https://example/libx.git /opt/orchestrator/libs/libx'', None, False),
      (''pip install -e /opt/orchestrator/libs/libx'', None, True),
      (''make build'', Some (Join REPOS_DIR ''app''), False),
      (''false'', Some (Join REPOS_DIR ''app''), False)]"
  by (simp add: demo_simps run_simps string_simps)

text \<open>
  Claim C3 as stated speaks of the lines of the file. The second line of the manifest of
  the example is not empty and does not start with \<^verbatim>\<open>#\<close>, and it is not run; the fifth
  is run, but as \<^verbatim>\<open>make build\<close>, not as the line.
\<close>

theorem raw_manifest_lines_counterexample:
  "map_of (projects demo_config) ''app'' = Some demo_app
   \<and> fst (deploy_project calm_os ''app'' demo_config (start deployed)) = Inr True
   \<and> file_lines calm_os app_manifest deployed ! 1 = ''  # indented note'' @ [CHR 0x0A]
   \<and> ''  # indented note'' @ [CHR 0x0A] \<noteq> []
   \<and> \<not> startswith (''  # indented note'' @ [CHR 0x0A]) ''#''
   \<and> (''  # indented note'' @ [CHR 0x0A], Some (Join REPOS_DIR ''app''), False)
        \<notin> set (commands (trace (snd (deploy_project calm_os ''app'' demo_config (start deployed)))))
   \<and> file_lines calm_os app_manifest deployed ! 4 = ''  make build  '' @ [CHR 0x0A]
   \<and> (''  make build  '' @ [CHR 0x0A], Some (Join REPOS_DIR ''app''), False)
        \<notin> set (commands (trace (snd (deploy_project calm_os ''app'' demo_config (start deployed)))))"
proof -
  have "fst (deploy_project calm_os ''app'' demo_config (start deployed)) = Inr True"
    using deploy_project_complete [of demo_config "''app''" demo_app "''https://example/app.git''"
        calm_os "start deployed"]
    by (simp add: demo_simps project_sync_def before_sync_def announce_def clone_or_update_def
          log_def run_cmd_def perform_def Let_def resolved_def map_filter_simps dep_complete_def)
  then show ?thesis
    by (simp add: calm_run_commands)
       (simp add: demo_simps startswith_def)
qed

lemma strip_first:
  "dropWhile isspace raw = c # m \<Longrightarrow> \<exists>m'. strip raw = c # m'"
proof -
  assume a: "dropWhile isspace raw = c # m"
  then have "\<not> isspace c"
    using hd_dropWhile [of isspace raw] by simp
  then have "dropWhile isspace (rev m @ [c]) = dropWhile isspace (rev m) @ [c]"
    by (simp add: dropWhile_append3)
  with a show ?thesis by (simp add: strip_def)
qed

lemma startswith_strip:
  "startswith (strip raw) ''#'' \<longleftrightarrow> startswith (dropWhile isspace raw) ''#''"
proof (cases "dropWhile isspace raw")
  case Nil
  have "strip raw = []"
    by (simp only: strip_def Nil rev.simps dropWhile.simps)
  then show ?thesis by (simp only: Nil)
next
  case (Cons c m)
  from strip_first [OF Cons] obtain m' where "strip raw = c # m'" ..
  with Cons show ?thesis by (simp add: startswith_def)
qed

text \<open>
  Claim C9. The comment test is made on the stripped line, which starts with \<^verbatim>\<open>#\<close>
  exactly when the first character of the line that is not whitespace is \<^verbatim>\<open>#\<close>. Such a
  line, indented or not, is passed over without any effect. A line that is not blank and
  is not such a comment is run as its stripped form, not as the line. Both copies.
\<close>

theorem comment_check_on_stripped_line:
  "(startswith (strip raw) ''#'' \<longleftrightarrow> startswith (dropWhile isspace raw) ''#'')
   \<and> (startswith (dropWhile isspace raw) ''#'' \<longrightarrow>
        manifest_loop os project_path (raw # rest) s = manifest_loop os project_path rest s \<and>
        manifest_loop_pkg os project_path (raw # rest) lg s =
          manifest_loop_pkg os project_path rest lg s)
   \<and> (strip raw \<noteq> [] \<and> \<not> startswith (dropWhile isspace raw) ''#'' \<longrightarrow>
        manifest_loop os project_path (raw # rest) s =
          manifest_loop os project_path rest
            (snd (run_cmd os (strip raw) (Some project_path) False
                    (log os ''INFO'' (''> '' @ strip raw) s))) \<and>
        manifest_loop_pkg os project_path (raw # rest) lg s =
          manifest_loop_pkg os project_path rest lg
            (snd (run_cmd os (strip raw) (Some project_path) False
                    (logger_info os lg (''> '' @ strip raw) s))))"
  using startswith_strip [of raw] by (simp add: Let_def)

theorem comment_check_on_stripped_line_witness:
  "startswith (dropWhile isspace ([CHR 0x09, CHR 0x20] @ ''# indented note'' @ [CHR 0x0A])) ''#''
   \<and> manifest_loop calm_os (Join REPOS_DIR ''app'')
         [[CHR 0x09, CHR 0x20] @ ''# indented note'' @ [CHR 0x0A]] (start deployed) = start deployed
   \<and> strip (''  make build  '' @ [CHR 0x0A]) = ''make build''
   \<and> commands (trace (manifest_loop_pkg calm_os (Join ROOT_DIR ''app'')
         [''  make build  '' @ [CHR 0x0A]] demo_logger (start deployed))) =
       [(''make build'', Some (Join ROOT_DIR ''app''), False)]"
  using comment_check_on_stripped_line [of "[CHR 0x09, CHR 0x20] @ ''# indented note'' @ [CHR 0x0A]"
      calm_os "Join REPOS_DIR ''app''" "[]" "start deployed" demo_logger]
    comment_check_on_stripped_line [of "''  make build  '' @ [CHR 0x0A]"
      calm_os "Join ROOT_DIR ''app''" "[]" "start deployed" demo_logger]
  by (simp add: string_simps commands_manifest_loop_pkg start_def Let_def)

lemma made_dirs_append [simp]: "made_dirs (xs @ ys) = made_dirs xs @ made_dirs ys"
  by (induction xs rule: made_dirs.induct) simp_all

text \<open>
  Claim C1, as amended. For a name that is not a key of the projects mapping,
  \<open>deploy_project\<close> returns \<^verbatim>\<open>False\<close> and runs no command; all it does is log the
  error. In the first copy that is one line on the standard output, the creation of the
  log directory and one line appended to the log file of the day; no other directory is
  created. In the second copy it is one line written to the log file of the handler and
  the same line on the standard output; no directory is created.
\<close>

theorem unknown_project_only_logs:
  assumes "map_of (projects config) name = None"
  shows
  "deploy_project os name config s =
     (Inr False,
      log os ''ERROR'' (''Project '' @ CHR 0x27 # name @ CHR 0x27 # '' not found in config'') s)
   \<and> commands (trace (snd (deploy_project os name config s))) = commands (trace s)
   \<and> made_dirs (trace (snd (deploy_project os name config s))) = made_dirs (trace s) @ [LOG_DIR]
   \<and> (let msg = ''Project '' @ CHR 0x27 # name @ CHR 0x27 # '' not found in config'';
           ts = strftime_now os ''%Y-%m-%d %H:%M:%S'' (world s);
           out = Stdout (''['' @ ts @ ''] '' @ colors ''ERROR'' @ ''[ERROR]'' @ CHR 0x1B # ''[0m '' @ msg);
           log_file = Join LOG_DIR (''orchestrator_'' @
             strftime_now os ''%Y%m%d''
               (apply_event os (Mkdir LOG_DIR False) (apply_event os out (world s))) @ ''.log'')
       in trace (snd (deploy_project os name config s)) =
            trace s @ [out, Mkdir LOG_DIR False, OpenAppend log_file,
                       Write log_file (''['' @ ts @ ''] [ERROR] '' @ msg @ [CHR 0x0A]), Flush])
   \<and> deploy_project_pkg os name config lg s =
     (Inr False,
      logger_error os lg (''Project '' @ CHR 0x27 # name @ CHR 0x27 # '' not found in config'') s)
   \<and> commands (trace (snd (deploy_project_pkg os name config lg s))) = commands (trace s)
   \<and> made_dirs (trace (snd (deploy_project_pkg os name config lg s))) = made_dirs (trace s)
   \<and> (let line = ''['' @ asctime os (world s) @ ''] [ERROR] '' @
             ''Project '' @ CHR 0x27 # name @ CHR 0x27 # '' not found in config''
       in trace (snd (deploy_project_pkg os name config lg s)) =
            trace s @ [Write (handler_file lg) (line @ [CHR 0x0A]), Stdout line])"
  using deploy_project_unknown [OF assms, of os s] deploy_project_unknown_pkg [OF assms, of os lg s]
  by (simp add: log_def logger_error_def logger_log_def Let_def)

theorem unknown_project_only_logs_witness:
  "map_of (projects demo_config) ''ghost'' = None
   \<and> fst (deploy_project calm_os ''ghost'' demo_config (start [])) = Inr False
   \<and> commands (trace (snd (deploy_project calm_os ''ghost'' demo_config (start [])))) = []
   \<and> made_dirs (trace (snd (deploy_project calm_os ''ghost'' demo_config (start [])))) = [LOG_DIR]
   \<and> trace (snd (deploy_project_pkg calm_os ''ghost'' demo_config demo_logger (start []))) =
       [Write (Join LOG_DIR_pkg ''orchestrator_20260101.log'')
          (''[2026-01-01 12:00:00,000] [ERROR] Project '' @ CHR 0x27 # ''ghost'' @ CHR 0x27 #
           '' not found in config'' @ [CHR 0x0A]),
        Stdout (''[2026-01-01 12:00:00,000] [ERROR] Project '' @ CHR 0x27 # ''ghost'' @ CHR 0x27 #
           '' not found in config'')]"
  using unknown_project_only_logs [of demo_config "''ghost''" calm_os "start []" demo_logger]
  by (simp add: demo_simps run_simps)

text \<open>
  Claim C1 as stated allows no effect on the file system. In a world where the log
  directory does not exist, deploying an unknown name with the first copy creates it.
\<close>

theorem unknown_project_creates_log_dir_counterexample:
  "map_of (projects demo_config) ''ghost'' = None
   \<and> \<not> path_exists calm_os LOG_DIR (world (start []))
   \<and> path_exists calm_os LOG_DIR
        (world (snd (deploy_project calm_os ''ghost'' demo_config (start []))))
   \<and> Mkdir LOG_DIR False \<in> set (trace (snd (deploy_project calm_os ''ghost'' demo_config (start []))))"
  by (simp add: demo_simps deploy_project_def log_def perform_def Let_def)

subsection \<open>The driver\<close>















end
